theory Spec2Isabelle
  imports Complex_Main
begin

section \<open>Weather station: data model\<close>

text \<open>
  A shallow embedding of \<^verbatim>\<open>weather_station.py\<close> and \<^verbatim>\<open>lib/config.py\<close>.
  Every function of the source becomes a state transformer over the record \<open>st\<close>; what the
  outside world answers (the debug pin, the WLAN status, the NTP server, the HTTP services,
  the I2C bus, the sensors, the image files) is read from the record \<open>env\<close>. An exception
  of the source is the \<open>Inl\<close> branch of the result.
\<close>

subsection \<open>Exceptions\<close>

text \<open>
  The exceptions the steps can raise; all of them are subclasses of Python's
  \<^verbatim>\<open>Exception\<close>. \<open>RuntimeError\<close> carries the message of the source's
  \<^verbatim>\<open>raise RuntimeError(...)\<close>; the others come from subscripting, from arithmetic on a
  value of the wrong type and from the drivers (\<open>OSError\<close> with its errno).
\<close>

datatype error =
    RuntimeError string
  | KeyError string
  | IndexError
  | TypeError
  | ValueError
  | OSError int

subsection \<open>JSON values\<close>

text \<open>What \<^verbatim>\<open>response.json()\<close> returns: a dict is an association list of its items.\<close>

datatype json =
    JNull
  | JBool bool
  | JNum real
  | JStr string
  | JArr "json list"
  | JObj "(string \<times> json) list"

text \<open>\<^verbatim>\<open>v[key]\<close> with a string key: only a dict accepts it, a missing key is a KeyError.\<close>

fun jkey :: "json \<Rightarrow> string \<Rightarrow> error + json" where
  "jkey (JObj kvs) k = (case map_of kvs k of None \<Rightarrow> Inl (KeyError k) | Some v \<Rightarrow> Inr v)"
| "jkey _ k = Inl TypeError"

text \<open>
  \<^verbatim>\<open>v[i]\<close> with a non-negative integer index: a list gives its element or IndexError, a
  string its character, a dict has no such key, anything else is not subscriptable.
\<close>

fun jidx :: "json \<Rightarrow> nat \<Rightarrow> error + json" where
  "jidx (JArr vs) i = (if i < length vs then Inr (vs ! i) else Inl IndexError)"
| "jidx (JStr cs) i = (if i < length cs then Inr (JStr [cs ! i]) else Inl IndexError)"
| "jidx (JObj kvs) i = Inl (KeyError [])"
| "jidx _ i = Inl TypeError"

text \<open>The numeric value of an operand of \<^verbatim>\<open>-\<close>; Python's bool is an int.\<close>

fun jnum :: "json \<Rightarrow> error + real" where
  "jnum (JNum x) = Inr x"
| "jnum (JBool b) = Inr (if b then 1 else 0)"
| "jnum _ = Inl TypeError"

text \<open>\<^verbatim>\<open>'/img/' + icon[:2] + '@2x.pbm'\<close>: only a string can be sliced and concatenated to a string.\<close>

fun icon_path :: "json \<Rightarrow> error + string" where
  "icon_path (JStr cs) = Inr (''/img/'' @ take 2 cs @ ''@2x.pbm'')"
| "icon_path _ = Inl TypeError"

subsection \<open>Configuration (lib/config.py)\<close>

record config =
  SCL_PIN :: int
  SDA_PIN :: int
  LED_PIN :: int
  LED_ON :: int
  LED_OFF :: int
  DEBUG_PIN :: int
  FAHRENHEIT :: bool
  PAGES :: "string list"
  TIMEZONE :: int
  DAYLIGHT_SAVING_TIME :: bool
  INTERVAL :: int
  SSID :: string
  PASS :: string
  MAX_TRIES :: int
  OPENWEATHER_API :: string
  OPENWEATHER_CITY :: string
  OPENWEATHER_URL1 :: string
  OPENWEATHER_URL2 :: string
  THINGSPEAK_WRITE_API :: string
  THINGSPEAK_READ_API :: string
  THINGSPEAK_URL :: string

definition default_config :: config where
  "default_config = \<lparr>
     SCL_PIN = 22, SDA_PIN = 21,
     LED_PIN = 2, LED_ON = 0, LED_OFF = 1,
     DEBUG_PIN = 5,
     FAHRENHEIT = False,
     PAGES = [''Date Time'', ''Currently'', ''Forecast'', ''Sensors #1'', ''Sensors #2''],
     TIMEZONE = 1,
     DAYLIGHT_SAVING_TIME = True,
     INTERVAL = 900,
     SSID = ''<Your network SSID>'',
     PASS = ''<Your network password>'',
     MAX_TRIES = 20,
     OPENWEATHER_API = ''<Your OpenWeather API key>'',
     OPENWEATHER_CITY = ''<Your OpenWeather City>,<2-letter country code>'',
     OPENWEATHER_URL1 = ''https://api.openweathermap.org/data/2.5/weather?q={city}&appid={api}'',
     OPENWEATHER_URL2 = ''https://api.openweathermap.org/data/2.5/onecall?lat={lat}&lon={lon}&exclude={excl}&appid={api}'',
     THINGSPEAK_WRITE_API = ''<Your ThingSpeak Write API key>'',
     THINGSPEAK_READ_API = ''<Your ThingSpeak Read API key>'',
     THINGSPEAK_URL = ''https://api.thingspeak.com/update?api_key={api}&field1={temp}&field2={hum}&field3={lum}&field4={pres}''
   \<rparr>"

subsection \<open>Effects\<close>

text \<open>
  A URL is the template of the configuration together with the keyword arguments of
  \<^verbatim>\<open>str.format\<close>, in the order the source passes them.
\<close>

datatype url = Url string "(string \<times> json) list"

datatype iface = AP_IF | STA_IF

datatype device = AM2320 | BMP180 | BH1750 | SSD1306

text \<open>A piece of a formatted string: literal text or one replacement field.\<close>

datatype frag =
    Lit string
  | D02 nat
  | D04 nat
  | F0 real
  | F1 real
  | Val json

text \<open>Everything the program does to the outside world, in the order it does it.\<close>

datatype event =
    LedValue int int
  | Sleep real
  | PinRead int
  | WlanActive iface bool
  | WlanIsconnected
  | WlanConnect string string
  | NtpSettime
  | RtcDatetime nat nat nat nat nat nat nat nat
  | HttpGet url
  | I2cScan
  | DeviceInit device
  | Am2320Measure
  | Bmp180Read
  | Bh1750Luminance
  | LoadPbm string
  | DisplayFill int
  | DisplayText "frag list" int int
  | WriterSetTextpos int int
  | WriterPrintstring "frag list"
  | DisplayBlit nat int int
  | DisplayShow
  | DisplayPoweroff
  | PrintException error
  | Deepsleep int

record response =
  status_code :: int
  json_body :: "error + json"

text \<open>
  The outside world. A collaborator that is asked several times in a cycle is a function
  of the number of earlier calls, so that two calls may answer differently.
\<close>

record env =
  debug_pin :: "nat \<Rightarrow> int"
  isconnected :: "nat \<Rightarrow> bool"
  wlan_connect :: "error + unit"
  ntp_time :: "error + nat"
  http_get :: "nat \<Rightarrow> url \<Rightarrow> error + response"
  i2c_scan :: "nat \<Rightarrow> int list"
  device_init :: "device \<Rightarrow> error + unit"
  am2320_measure :: "error + real \<times> real"
  bmp180_read :: "error + real \<times> real \<times> real"
  bh1750_luminance :: "error + real"
  load_pbm :: "string \<Rightarrow> error + nat"

text \<open>
  The state of the device: the effects so far, the real-time clock in seconds since
  2000-01-01 00:00:00 (what \<^verbatim>\<open>utime.time()\<close> returns), and how often each repeated
  collaborator has been asked.
\<close>

record st =
  trace :: "event list"
  rtc :: nat
  debug_reads :: nat
  polls :: nat
  requests :: nat
  scans :: nat

definition init_st :: st where
  "init_st = \<lparr>trace = [], rtc = 0, debug_reads = 0, polls = 0, requests = 0, scans = 0\<rparr>"

subsection \<open>Sequencing with exceptions\<close>

type_synonym 'a prog = "st \<Rightarrow> (error + 'a) \<times> st"

definition ret :: "'a \<Rightarrow> 'a prog" where
  "ret x s = (Inr x, s)"

definition raise :: "error \<Rightarrow> 'a prog" where
  "raise e s = (Inl e, s)"

definition lift :: "error + 'a \<Rightarrow> 'a prog" where
  "lift r s = (r, s)"

definition bnd :: "'a prog \<Rightarrow> ('a \<Rightarrow> 'b prog) \<Rightarrow> 'b prog" where
  "bnd m f s = (case m s of (Inl e, s') \<Rightarrow> (Inl e, s') | (Inr x, s') \<Rightarrow> f x s')"

definition emit :: "event \<Rightarrow> unit prog" where
  "emit ev s = (Inr (), s\<lparr>trace := trace s @ [ev]\<rparr>)"

definition emit_st :: "event \<Rightarrow> st \<Rightarrow> st" where
  "emit_st ev s = s\<lparr>trace := trace s @ [ev]\<rparr>"

section \<open>The program\<close>

subsection \<open>show_error\<close>

text \<open>One turn of the loop body: LED on, half a second, LED off, half a second.\<close>

definition flash_once :: "config \<Rightarrow> event list" where
  "flash_once cfg =
     [LedValue (LED_PIN cfg) (LED_ON cfg), Sleep (1/2),
      LedValue (LED_PIN cfg) (LED_OFF cfg), Sleep (1/2)]"

fun flash :: "config \<Rightarrow> nat \<Rightarrow> st \<Rightarrow> st" where
  "flash cfg 0 s = s"
| "flash cfg (Suc n) s = flash cfg n (s\<lparr>trace := trace s @ flash_once cfg\<rparr>)"

definition show_error :: "config \<Rightarrow> st \<Rightarrow> st" where
  "show_error cfg s = flash cfg 3 s"

subsection \<open>debug_on\<close>

definition debug_on :: "config \<Rightarrow> env \<Rightarrow> st \<Rightarrow> bool \<times> st" where
  "debug_on cfg env s =
     (debug_pin env (debug_reads s) = 0,
      s\<lparr>trace := trace s @ [PinRead (DEBUG_PIN cfg)], debug_reads := Suc (debug_reads s)\<rparr>)"

text \<open>\<^verbatim>\<open>if debug_on(): print(...)\<close>: the pin is read, the printed text is not modelled.\<close>

definition debug_print :: "config \<Rightarrow> env \<Rightarrow> unit prog" where
  "debug_print cfg env s = (Inr (), snd (debug_on cfg env s))"

subsection \<open>temperature_2_unit\<close>

definition temperature_2_unit :: "config \<Rightarrow> real \<Rightarrow> real" where
  "temperature_2_unit cfg celsius =
     (if FAHRENHEIT cfg then celsius * 9 / 5 + 32 else celsius)"

subsection \<open>connect_wifi\<close>

definition poll :: "env \<Rightarrow> bool prog" where
  "poll env s =
     (Inr (isconnected env (polls s)),
      s\<lparr>trace := trace s @ [WlanIsconnected], polls := Suc (polls s)\<rparr>)"

text \<open>
  The loop \<^verbatim>\<open>while not sta_if.isconnected() and tries < config.MAX_TRIES\<close>: the status is
  asked first at every test of the condition.
\<close>

function wifi_wait :: "config \<Rightarrow> env \<Rightarrow> int \<Rightarrow> st \<Rightarrow> st" where
  "wifi_wait cfg env tries s =
     (let s1 = snd (poll env s) in
      if \<not> isconnected env (polls s) \<and> tries < MAX_TRIES cfg
      then wifi_wait cfg env (tries + 1) (emit_st (Sleep 1) s1)
      else s1)"
  by pat_completeness auto
termination
  by (relation "measure (\<lambda>(cfg, env, tries, s). nat (MAX_TRIES cfg - tries))") auto

declare wifi_wait.simps [simp del]

text \<open>
  How often the loop waits when it is entered with the counter at \<open>tries\<close> and the
  status has been asked \<open>p\<close> times before: an auxiliary count for the statements about
  the loop, following the loop's own recursion.
\<close>

function waits :: "config \<Rightarrow> env \<Rightarrow> int \<Rightarrow> nat \<Rightarrow> nat" where
  "waits cfg env tries p =
     (if \<not> isconnected env p \<and> tries < MAX_TRIES cfg
      then Suc (waits cfg env (tries + 1) (Suc p))
      else 0)"
  by pat_completeness auto
termination
  by (relation "measure (\<lambda>(cfg, env, tries, p). nat (MAX_TRIES cfg - tries))") auto

declare waits.simps [simp del]

definition connect_wifi :: "config \<Rightarrow> env \<Rightarrow> unit prog" where
  "connect_wifi cfg env =
     bnd (emit (WlanActive AP_IF False)) (\<lambda>_.
     bnd (poll env) (\<lambda>c.
     bnd (if \<not> c
          then bnd (emit (WlanActive STA_IF True)) (\<lambda>_.
               bnd (emit (WlanConnect (SSID cfg) (PASS cfg))) (\<lambda>_.
               bnd (lift (wlan_connect env)) (\<lambda>_.
               (\<lambda>s. (Inr (), wifi_wait cfg env 0 s)))))
          else ret ()) (\<lambda>_.
     bnd (poll env) (\<lambda>c2.
     if c2 then ret () else raise (RuntimeError ''WiFi connection failed'')))))"

subsection \<open>The calendar of utime\<close>

text \<open>
  \<^verbatim>\<open>utime.localtime\<close> and \<^verbatim>\<open>utime.mktime\<close> belong to the firmware, not to the
  repository. They are modelled here as the proleptic Gregorian calendar counted in seconds
  from 2000-01-01 00:00:00, a Saturday; weekdays count from Monday = 0, as the source's
  comment on the tuple says.
\<close>

definition is_leap_year :: "nat \<Rightarrow> bool" where
  "is_leap_year y = ((y mod 4 = 0 \<and> y mod 100 \<noteq> 0) \<or> y mod 400 = 0)"

definition days_in_year :: "nat \<Rightarrow> nat" where
  "days_in_year y = (if is_leap_year y then 366 else 365)"

definition days_in_month :: "nat \<Rightarrow> nat \<Rightarrow> nat" where
  "days_in_month y m =
     (if m = 2 then (if is_leap_year y then 29 else 28)
      else if m = 4 \<or> m = 6 \<or> m = 9 \<or> m = 11 then 30 else 31)"

definition days_before_year :: "nat \<Rightarrow> nat" where
  "days_before_year y = sum_list (map days_in_year [2000..<y])"

definition days_before_month :: "nat \<Rightarrow> nat \<Rightarrow> nat" where
  "days_before_month y m = sum_list (map (days_in_month y) [1..<m])"

text \<open>The tuple of \<^verbatim>\<open>utime.localtime\<close>.\<close>

record tm =
  tm_year :: nat
  tm_mon :: nat
  tm_mday :: nat
  tm_hour :: nat
  tm_min :: nat
  tm_sec :: nat
  tm_wday :: nat
  tm_yday :: nat

text \<open>\<^verbatim>\<open>utime.mktime\<close> of a tuple whose fields are in range; weekday and yearday are ignored.\<close>

definition mktime :: "tm \<Rightarrow> nat" where
  "mktime t =
     tm_sec t + tm_min t * 60 + tm_hour t * 3600
     + (days_before_year (tm_year t) + days_before_month (tm_year t) (tm_mon t)
        + (tm_mday t - 1)) * 86400"

function split_year :: "nat \<Rightarrow> nat \<Rightarrow> nat \<times> nat" where
  "split_year y d =
     (if d < days_in_year y then (y, d) else split_year (Suc y) (d - days_in_year y))"
  by pat_completeness auto
termination
  by (relation "measure (\<lambda>(y, d). d)") (auto simp: days_in_year_def)

declare split_year.simps [simp del]

function split_month :: "nat \<Rightarrow> nat \<Rightarrow> nat \<Rightarrow> nat \<times> nat" where
  "split_month y m d =
     (if 12 \<le> m \<or> d < days_in_month y m then (m, d)
      else split_month y (Suc m) (d - days_in_month y m))"
  by pat_completeness auto
termination
  by (relation "measure (\<lambda>(y, m, d). 12 - m)") auto

declare split_month.simps [simp del]

definition localtime :: "nat \<Rightarrow> tm" where
  "localtime secs =
     (let days = secs div 86400;
          r = secs mod 86400;
          (y, yd) = split_year 2000 days;
          (m, md) = split_month y 1 yd
      in \<lparr>tm_year = y, tm_mon = m, tm_mday = Suc md,
          tm_hour = r div 3600, tm_min = r mod 3600 div 60, tm_sec = r mod 60,
          tm_wday = (days + 5) mod 7, tm_yday = Suc yd\<rparr>)"

text \<open>
  \<^verbatim>\<open>rtc.datetime((year, month, mday, weekday, hour, minute, second, subseconds))\<close>: the
  clock is set to that instant; the weekday is recomputed by the hardware and the
  subseconds are below the resolution of the model.
\<close>

definition rtc_datetime :: "nat \<Rightarrow> nat \<Rightarrow> nat \<Rightarrow> nat \<Rightarrow> nat \<Rightarrow> nat \<Rightarrow> nat \<Rightarrow> nat \<Rightarrow> unit prog" where
  "rtc_datetime year month mday weekday hour minute second subsec s =
     (Inr (),
      s\<lparr>trace := trace s @ [RtcDatetime year month mday weekday hour minute second subsec],
        rtc := mktime \<lparr>tm_year = year, tm_mon = month, tm_mday = mday,
                       tm_hour = hour, tm_min = minute, tm_sec = second,
                       tm_wday = 0, tm_yday = 0\<rparr>\<rparr>)"

subsection \<open>synchronize_rtc\<close>

text \<open>
  \<^verbatim>\<open>31-(int(5*year/4+K))%7\<close>: the year is not negative, so truncation is the floor of
  the quotient, and \<^verbatim>\<open>%\<close> binds tighter than the subtraction.
\<close>

definition dst_day :: "nat \<Rightarrow> nat \<Rightarrow> nat" where
  "dst_day year k = 31 - (5 * year div 4 + k) mod 7"

definition HHMarch :: "nat \<Rightarrow> nat" where
  "HHMarch year =
     mktime \<lparr>tm_year = year, tm_mon = 3, tm_mday = dst_day year 4,
             tm_hour = 2, tm_min = 0, tm_sec = 0, tm_wday = 0, tm_yday = 0\<rparr>"

definition HHOctober :: "nat \<Rightarrow> nat" where
  "HHOctober year =
     mktime \<lparr>tm_year = year, tm_mon = 10, tm_mday = dst_day year 1,
             tm_hour = 3, tm_min = 0, tm_sec = 0, tm_wday = 0, tm_yday = 0\<rparr>"

text \<open>\<^verbatim>\<open>rtc.datetime((tm[0], tm[1], tm[2], tm[6], tm[3], tm[4], tm[5], 0))\<close>\<close>

definition set_rtc_from :: "tm \<Rightarrow> unit prog" where
  "set_rtc_from t =
     rtc_datetime (tm_year t) (tm_mon t) (tm_mday t) (tm_wday t)
                  (tm_hour t) (tm_min t) (tm_sec t) 0"

text \<open>\<^verbatim>\<open>ntptime.settime()\<close>: the clock is set to the server's UTC time, or the call raises.\<close>

definition ntp_settime :: "env \<Rightarrow> unit prog" where
  "ntp_settime env s =
     (case ntp_time env of
        Inl e \<Rightarrow> (Inl e, s\<lparr>trace := trace s @ [NtpSettime]\<rparr>)
      | Inr t \<Rightarrow> (Inr (), s\<lparr>trace := trace s @ [NtpSettime], rtc := t\<rparr>))"

text \<open>The block under \<^verbatim>\<open>if config.DAYLIGHT_SAVING_TIME\<close>.\<close>

definition dst_correction :: "config \<Rightarrow> env \<Rightarrow> unit prog" where
  "dst_correction cfg env s =
     (let year = tm_year (localtime (rtc s));
          curtime = rtc s
      in bnd (if HHMarch year \<le> curtime \<and> curtime < HHOctober year
              then set_rtc_from (localtime (curtime + 3600))
              else ret ()) (\<lambda>_.
         debug_print cfg env) s)"

text \<open>
  The sum \<^verbatim>\<open>utime.time() + (config.TIMEZONE * 3600)\<close> is an integer; the calendar above
  starts in 2000, so a negative sum is taken as 0.
\<close>

definition synchronize_rtc :: "config \<Rightarrow> env \<Rightarrow> unit prog" where
  "synchronize_rtc cfg env s =
     (if tm_year (localtime (rtc s)) = 2000
      then
        bnd (debug_print cfg env) (\<lambda>_.
        bnd (ntp_settime env) (\<lambda>_.
        bnd (debug_print cfg env) (\<lambda>_.
        bnd (\<lambda>s1. set_rtc_from (localtime (nat (int (rtc s1) + TIMEZONE cfg * 3600))) s1) (\<lambda>_.
        bnd (debug_print cfg env) (\<lambda>_.
        if DAYLIGHT_SAVING_TIME cfg then dst_correction cfg env else ret ()))))) s
      else (Inr (), s))"

subsection \<open>get_weather_data\<close>

text \<open>One entry of the returned list: the dict with the keys temp, hum, pres, icon, report.\<close>

record forecast_day =
  ow_temp :: real
  ow_hum :: json
  ow_pres :: json
  ow_icon :: json
  ow_report :: json

definition ebnd :: "error + 'a \<Rightarrow> ('a \<Rightarrow> error + 'b) \<Rightarrow> error + 'b" where
  "ebnd r f = (case r of Inl e \<Rightarrow> Inl e | Inr x \<Rightarrow> f x)"

text \<open>A chain of subscripts \<^verbatim>\<open>v[a][b]...\<close>, evaluated from the left.\<close>

datatype sel = K string | I nat

fun jpath :: "json \<Rightarrow> sel list \<Rightarrow> error + json" where
  "jpath v [] = Inr v"
| "jpath v (K k # p) = ebnd (jkey v k) (\<lambda>w. jpath w p)"
| "jpath v (I i # p) = ebnd (jidx v i) (\<lambda>w. jpath w p)"

definition nth_or_raise :: "'a list \<Rightarrow> nat \<Rightarrow> error + 'a" where
  "nth_or_raise xs i = (if i < length xs then Inr (xs ! i) else Inl IndexError)"

definition http_request :: "env \<Rightarrow> url \<Rightarrow> response prog" where
  "http_request env u s =
     (http_get env (requests s) u,
      s\<lparr>trace := trace s @ [HttpGet u], requests := Suc (requests s)\<rparr>)"

text \<open>Lines 249 to 253: the record of the current conditions.\<close>

definition extract_today :: "config \<Rightarrow> json \<Rightarrow> error + forecast_day" where
  "extract_today cfg today =
     ebnd (jpath today [K ''main'', K ''temp'']) (\<lambda>v.
     ebnd (jnum v) (\<lambda>kelvin.
     ebnd (jpath today [K ''main'', K ''humidity'']) (\<lambda>hum.
     ebnd (jpath today [K ''main'', K ''pressure'']) (\<lambda>pres.
     ebnd (jpath today [K ''weather'', I 0, K ''icon'']) (\<lambda>icon.
     ebnd (jpath today [K ''weather'', I 0, K ''description'']) (\<lambda>report.
     Inr \<lparr>ow_temp = temperature_2_unit cfg (kelvin - 273.15), ow_hum = hum,
          ow_pres = pres, ow_icon = icon, ow_report = report\<rparr>))))))"

text \<open>Lines 293 to 297: the record of one day of the forecast.\<close>

definition extract_daily :: "config \<Rightarrow> json \<Rightarrow> nat \<Rightarrow> error + forecast_day" where
  "extract_daily cfg forecast day =
     ebnd (jpath forecast [K ''daily'', I day, K ''temp'', K ''day'']) (\<lambda>v.
     ebnd (jnum v) (\<lambda>kelvin.
     ebnd (jpath forecast [K ''daily'', I day, K ''humidity'']) (\<lambda>hum.
     ebnd (jpath forecast [K ''daily'', I day, K ''pressure'']) (\<lambda>pres.
     ebnd (jpath forecast [K ''daily'', I day, K ''weather'', I 0, K ''icon'']) (\<lambda>icon.
     ebnd (jpath forecast [K ''daily'', I day, K ''weather'', I 0, K ''description'']) (\<lambda>report.
     Inr \<lparr>ow_temp = temperature_2_unit cfg (kelvin - 273.15), ow_hum = hum,
          ow_pres = pres, ow_icon = icon, ow_report = report\<rparr>))))))"

text \<open>The loop \<^verbatim>\<open>for day in range(1, 4)\<close>, appending to \<^verbatim>\<open>owdata\<close>.\<close>

fun forecast_loop :: "config \<Rightarrow> json \<Rightarrow> nat list \<Rightarrow> forecast_day list \<Rightarrow> error + forecast_day list" where
  "forecast_loop cfg forecast [] owdata = Inr owdata"
| "forecast_loop cfg forecast (day # days) owdata =
     ebnd (extract_daily cfg forecast day) (\<lambda>d.
     forecast_loop cfg forecast days (owdata @ [d]))"

definition url1 :: "config \<Rightarrow> url" where
  "url1 cfg =
     Url (OPENWEATHER_URL1 cfg)
       [(''city'', JStr (OPENWEATHER_CITY cfg)), (''api'', JStr (OPENWEATHER_API cfg))]"

definition url2 :: "config \<Rightarrow> json \<Rightarrow> json \<Rightarrow> url" where
  "url2 cfg latitude longitude =
     Url (OPENWEATHER_URL2 cfg)
       [(''lat'', latitude), (''lon'', longitude),
        (''excl'', JStr ''current,minutely,hourly,alerts''),
        (''api'', JStr (OPENWEATHER_API cfg))]"

definition get_weather_data :: "config \<Rightarrow> env \<Rightarrow> forecast_day list prog" where
  "get_weather_data cfg env =
     bnd (http_request env (url1 cfg)) (\<lambda>response.
     bnd (if status_code response < 400 then ret ()
          else raise (RuntimeError ''Webhook OpenWeather URL1 failed'')) (\<lambda>_.
     bnd (lift (json_body response)) (\<lambda>today.
     bnd (debug_print cfg env) (\<lambda>_.
     bnd (lift (extract_today cfg today)) (\<lambda>d0.
     bnd (lift (jpath today [K ''coord'', K ''lon''])) (\<lambda>longitude.
     bnd (lift (jpath today [K ''coord'', K ''lat''])) (\<lambda>latitude.
     bnd (http_request env (url2 cfg latitude longitude)) (\<lambda>response2.
     bnd (if status_code response2 < 400 then ret ()
          else raise (RuntimeError ''Webhook OpenWeather URL1 failed'')) (\<lambda>_.
     bnd (lift (json_body response2)) (\<lambda>forecast.
     bnd (debug_print cfg env) (\<lambda>_.
     bnd (lift (forecast_loop cfg forecast [1..<4] [d0])) (\<lambda>owdata.
     bnd (debug_print cfg env) (\<lambda>_.
     ret owdata)))))))))))))"

subsection \<open>get_sensor_readings\<close>

text \<open>The dict of the returned one-element list.\<close>

record sensor_reading =
  am2320_temp :: real
  am2320_hum :: real
  bmp180_temp :: real
  bmp180_pres :: real
  bmp180_alt :: real
  bh1750_lum :: real

definition scan :: "env \<Rightarrow> int list prog" where
  "scan env s =
     (Inr (i2c_scan env (scans s)),
      s\<lparr>trace := trace s @ [I2cScan], scans := Suc (scans s)\<rparr>)"

text \<open>The constructor of a driver object; a driver may talk to its chip there and raise.\<close>

definition init_device :: "env \<Rightarrow> device \<Rightarrow> unit prog" where
  "init_device env d = bnd (emit (DeviceInit d)) (\<lambda>_. lift (device_init env d))"

definition get_sensor_readings :: "config \<Rightarrow> env \<Rightarrow> sensor_reading list prog" where
  "get_sensor_readings cfg env =
     bnd (init_device env AM2320) (\<lambda>_.
     bnd (scan env) (\<lambda>_.
     bnd (scan env) (\<lambda>found.
     bnd (if 92 \<notin> set found then raise (RuntimeError ''Cannot find AM2320 sensor'')
          else ret ()) (\<lambda>_.
     bnd (emit Am2320Measure) (\<lambda>_.
     bnd (lift (am2320_measure env)) (\<lambda>(t, h).
     bnd (debug_print cfg env) (\<lambda>_.
     bnd (init_device env BMP180) (\<lambda>_.
     bnd (scan env) (\<lambda>found.
     bnd (if 119 \<notin> set found then raise (RuntimeError ''Cannot find BMP180 sensor'')
          else ret ()) (\<lambda>_.
     bnd (emit Bmp180Read) (\<lambda>_.
     bnd (lift (bmp180_read env)) (\<lambda>(bt, bp, ba).
     bnd (debug_print cfg env) (\<lambda>_.
     bnd (init_device env BH1750) (\<lambda>_.
     bnd (scan env) (\<lambda>found.
     bnd (if 35 \<notin> set found then raise (RuntimeError ''Cannot find BH1750 sensor'')
          else ret ()) (\<lambda>_.
     bnd (emit Bh1750Luminance) (\<lambda>_.
     bnd (lift (bh1750_luminance env)) (\<lambda>lum.
     bnd (debug_print cfg env) (\<lambda>_.
     ret [\<lparr>am2320_temp = temperature_2_unit cfg t, am2320_hum = h,
           bmp180_temp = temperature_2_unit cfg bt, bmp180_pres = bp / 100,
           bmp180_alt = ba, bh1750_lum = lum\<rparr>])))))))))))))))))))"

subsection \<open>load_pbm_image\<close>

text \<open>
  Opening and parsing the image file is one call to the file system, which returns the
  frame buffer (here a number naming it) or raises.
\<close>

definition load_pbm_image :: "env \<Rightarrow> string \<Rightarrow> nat prog" where
  "load_pbm_image env filename = bnd (emit (LoadPbm filename)) (\<lambda>_. lift (load_pbm env filename))"

subsection \<open>update_oled_display\<close>

definition DOW :: "string list" where
  "DOW = [''Mon'', ''Tue'', ''Wed'', ''Thu'', ''Fri'', ''Sat'', ''Sun'']"

definition unit_letter :: "config \<Rightarrow> string" where
  "unit_letter cfg = (if FAHRENHEIT cfg then ''F'' else ''C'')"

text \<open>Page 1: the current weather.\<close>

definition page_currently :: "config \<Rightarrow> env \<Rightarrow> forecast_day list \<Rightarrow> tm \<Rightarrow> unit prog" where
  "page_currently cfg env ow_data t =
     bnd (lift (nth_or_raise ow_data 0)) (\<lambda>d.
     bnd (lift (icon_path (ow_icon d))) (\<lambda>path.
     bnd (load_pbm_image env path) (\<lambda>icon_pbm.
     bnd (lift (nth_or_raise DOW (tm_wday t))) (\<lambda>dow.
     bnd (emit (DisplayText [Lit dow] 6 16)) (\<lambda>_.
     bnd (emit (DisplayBlit icon_pbm 4 25)) (\<lambda>_.
     bnd (emit (DisplayText [Lit ''T:'', F0 (ow_temp d), Lit '' '', Lit (unit_letter cfg)] 46 25)) (\<lambda>_.
     bnd (emit (DisplayText [Lit ''H:'', Val (ow_hum d), Lit '' %''] 46 35)) (\<lambda>_.
     bnd (emit (DisplayText [Lit ''P:'', Val (ow_pres d), Lit '' hPa''] 46 45)) (\<lambda>_.
     emit (DisplayText [Val (ow_report d)] 0 55))))))))))"

text \<open>Page 2: one column of the forecast, and the loop \<^verbatim>\<open>for day in range(1, 4)\<close>.\<close>

definition forecast_column :: "config \<Rightarrow> env \<Rightarrow> forecast_day list \<Rightarrow> tm \<Rightarrow> nat \<Rightarrow> unit prog" where
  "forecast_column cfg env ow_data t day =
     (let col_offset = (int day - 1) * 40 in
      bnd (lift (nth_or_raise ow_data day)) (\<lambda>d.
      bnd (lift (icon_path (ow_icon d))) (\<lambda>path.
      bnd (load_pbm_image env path) (\<lambda>icon_pbm.
      bnd (lift (nth_or_raise DOW ((tm_wday t + day) mod 7))) (\<lambda>dow.
      bnd (emit (DisplayText [Lit dow] (6 + col_offset) 16)) (\<lambda>_.
      bnd (emit (DisplayBlit icon_pbm (4 + col_offset) 25)) (\<lambda>_.
      emit (DisplayText [F0 (ow_temp d), Lit (unit_letter cfg)] (6 + col_offset) 55))))))))"

fun page_forecast :: "config \<Rightarrow> env \<Rightarrow> forecast_day list \<Rightarrow> tm \<Rightarrow> nat list \<Rightarrow> unit prog" where
  "page_forecast cfg env ow_data t [] = ret ()"
| "page_forecast cfg env ow_data t (day # days) =
     bnd (forecast_column cfg env ow_data t day) (\<lambda>_. page_forecast cfg env ow_data t days)"

text \<open>Page 0: date and time.\<close>

definition page_datetime :: "tm \<Rightarrow> unit prog" where
  "page_datetime t =
     bnd (emit (WriterSetTextpos 20 4)) (\<lambda>_.
     bnd (emit (WriterPrintstring
                  [D02 (tm_mday t), Lit ''/'', D02 (tm_mon t), Lit ''/'', D04 (tm_year t)])) (\<lambda>_.
     bnd (emit (WriterSetTextpos 44 4)) (\<lambda>_.
     bnd (lift (nth_or_raise DOW (tm_wday t))) (\<lambda>dow.
     emit (WriterPrintstring [Lit dow, Lit ''  '', D02 (tm_hour t), Lit '':'', D02 (tm_min t)])))))"

text \<open>Pages 3 and 4: the sensor readings.\<close>

definition page_sensors1 :: "config \<Rightarrow> env \<Rightarrow> sensor_reading list \<Rightarrow> unit prog" where
  "page_sensors1 cfg env sensor_data =
     bnd (load_pbm_image env ''/img/temperature.pbm'') (\<lambda>temp_pbm.
     bnd (load_pbm_image env ''/img/humidity.pbm'') (\<lambda>hum_pbm.
     bnd (emit (DisplayBlit temp_pbm 4 20)) (\<lambda>_.
     bnd (emit (DisplayBlit hum_pbm 4 44)) (\<lambda>_.
     bnd (lift (nth_or_raise sensor_data 0)) (\<lambda>r.
     bnd (emit (WriterSetTextpos 20 24)) (\<lambda>_.
     bnd (emit (WriterPrintstring [F1 (am2320_temp r), Lit '' '', Lit (unit_letter cfg)])) (\<lambda>_.
     bnd (emit (WriterSetTextpos 44 24)) (\<lambda>_.
     emit (WriterPrintstring [F1 (am2320_hum r), Lit '' %''])))))))))"

definition page_sensors2 :: "env \<Rightarrow> sensor_reading list \<Rightarrow> unit prog" where
  "page_sensors2 env sensor_data =
     bnd (load_pbm_image env ''/img/pressure.pbm'') (\<lambda>press_pbm.
     bnd (load_pbm_image env ''/img/luminance.pbm'') (\<lambda>lum_pbm.
     bnd (emit (DisplayBlit press_pbm 4 20)) (\<lambda>_.
     bnd (emit (DisplayBlit lum_pbm 4 44)) (\<lambda>_.
     bnd (lift (nth_or_raise sensor_data 0)) (\<lambda>r.
     bnd (emit (WriterSetTextpos 20 24)) (\<lambda>_.
     bnd (emit (WriterPrintstring [F0 (bmp180_pres r), Lit '' hPa''])) (\<lambda>_.
     bnd (emit (WriterSetTextpos 44 24)) (\<lambda>_.
     emit (WriterPrintstring [F0 (bh1750_lum r), Lit '' lux''])))))))))"

text \<open>The chain \<^verbatim>\<open>if page == 0 ... elif page == 4\<close>; a further page has a title only.\<close>

definition page_body ::
  "config \<Rightarrow> env \<Rightarrow> forecast_day list \<Rightarrow> sensor_reading list \<Rightarrow> tm \<Rightarrow> nat \<Rightarrow> unit prog" where
  "page_body cfg env ow_data sensor_data t page =
     (if page = 0 then page_datetime t
      else if page = 1 then page_currently cfg env ow_data t
      else if page = 2 then page_forecast cfg env ow_data t [1..<4]
      else if page = 3 then page_sensors1 cfg env sensor_data
      else if page = 4 then page_sensors2 env sensor_data
      else ret ())"

text \<open>The loop \<^verbatim>\<open>for page in range(len(config.PAGES))\<close>.\<close>

fun show_pages ::
  "config \<Rightarrow> env \<Rightarrow> forecast_day list \<Rightarrow> sensor_reading list \<Rightarrow> tm \<Rightarrow> nat list \<Rightarrow> unit prog" where
  "show_pages cfg env ow_data sensor_data t [] = ret ()"
| "show_pages cfg env ow_data sensor_data t (page # pages) =
     bnd (emit (DisplayFill 0)) (\<lambda>_.
     bnd (lift (nth_or_raise (PAGES cfg) page)) (\<lambda>title.
     bnd (emit (DisplayText [Lit title] 0 0)) (\<lambda>_.
     bnd (page_body cfg env ow_data sensor_data t page) (\<lambda>_.
     bnd (emit DisplayShow) (\<lambda>_.
     bnd (emit (Sleep 5)) (\<lambda>_.
     show_pages cfg env ow_data sensor_data t pages))))))"

definition update_oled_display ::
  "config \<Rightarrow> env \<Rightarrow> forecast_day list \<Rightarrow> sensor_reading list \<Rightarrow> unit prog" where
  "update_oled_display cfg env ow_data sensor_data =
     bnd (scan env) (\<lambda>found.
     bnd (if 60 \<notin> set found then raise (RuntimeError ''Cannot find OLED display'')
          else ret ()) (\<lambda>_.
     bnd (init_device env SSD1306) (\<lambda>_.
     bnd (\<lambda>s. (Inr (localtime (rtc s)), s)) (\<lambda>t.
     bnd (show_pages cfg env ow_data sensor_data t [0..<length (PAGES cfg)]) (\<lambda>_.
     emit DisplayPoweroff)))))"

subsection \<open>log_sensor_readings\<close>

definition thingspeak_url :: "config \<Rightarrow> sensor_reading \<Rightarrow> url" where
  "thingspeak_url cfg r =
     Url (THINGSPEAK_URL cfg)
       [(''api'', JStr (THINGSPEAK_WRITE_API cfg)),
        (''temp'', JNum (am2320_temp r)), (''hum'', JNum (am2320_hum r)),
        (''pres'', JNum (bmp180_pres r)), (''lum'', JNum (bh1750_lum r))]"

definition log_sensor_readings :: "config \<Rightarrow> env \<Rightarrow> sensor_reading list \<Rightarrow> unit prog" where
  "log_sensor_readings cfg env sensor_data =
     bnd (lift (nth_or_raise sensor_data 0)) (\<lambda>r.
     bnd (http_request env (thingspeak_url cfg r)) (\<lambda>response.
     if status_code response < 400 then ret ()
     else raise (RuntimeError ''Webhook ThingSpeak failed'')))"

subsection \<open>deepsleep_till_next_cycle\<close>

definition deepsleep_till_next_cycle :: "config \<Rightarrow> st \<Rightarrow> st" where
  "deepsleep_till_next_cycle cfg s =
     emit_st (Deepsleep (INTERVAL cfg * 1000)) (emit_st (Sleep 2) s)"

subsection \<open>run\<close>

text \<open>The body of the \<^verbatim>\<open>try\<close> block.\<close>

definition steps :: "config \<Rightarrow> env \<Rightarrow> unit prog" where
  "steps cfg env =
     bnd (connect_wifi cfg env) (\<lambda>_.
     bnd (synchronize_rtc cfg env) (\<lambda>_.
     bnd (get_weather_data cfg env) (\<lambda>ow_data.
     bnd (get_sensor_readings cfg env) (\<lambda>sensor_data.
     bnd (update_oled_display cfg env ow_data sensor_data) (\<lambda>_.
     log_sensor_readings cfg env sensor_data)))))"

text \<open>The \<^verbatim>\<open>except Exception\<close> clause: print the exception, flash the LED.\<close>

definition handler :: "config \<Rightarrow> error \<Rightarrow> st \<Rightarrow> st" where
  "handler cfg exc s = show_error cfg (emit_st (PrintException exc) s)"

text \<open>The statement after the \<^verbatim>\<open>try\<close>: \<^verbatim>\<open>if not debug_on(): deepsleep_till_next_cycle()\<close>.\<close>

definition sleep_decision :: "config \<Rightarrow> env \<Rightarrow> st \<Rightarrow> st" where
  "sleep_decision cfg env s =
     (let (dbg, s1) = debug_on cfg env s
      in if \<not> dbg then deepsleep_till_next_cycle cfg s1 else s1)"

text \<open>The \<^verbatim>\<open>try\<close> statement as a whole: the state in which the sleep decision is taken.\<close>

definition try_steps :: "config \<Rightarrow> env \<Rightarrow> st \<Rightarrow> st" where
  "try_steps cfg env s =
     (case steps cfg env s of
        (Inl exc, s1) \<Rightarrow> handler cfg exc s1
      | (Inr _, s1) \<Rightarrow> s1)"

definition run :: "config \<Rightarrow> env \<Rightarrow> st \<Rightarrow> st" where
  "run cfg env s = sleep_decision cfg env (try_steps cfg env s)"

subsection \<open>The answers of the weather service\<close>

text \<open>
  The JSON documents of the two endpoints, as far as the source reads them: the current
  conditions with their coordinates, and the daily series, one entry per day. A day is
  given by its temperature in Kelvin, humidity, pressure, icon code and description.
\<close>

definition weather_json :: "json \<Rightarrow> json \<Rightarrow> json" where
  "weather_json icon report = JArr [JObj [(''icon'', icon), (''description'', report)]]"

definition today_json :: "real \<Rightarrow> json \<Rightarrow> json \<Rightarrow> json \<Rightarrow> json \<Rightarrow> json \<Rightarrow> json \<Rightarrow> json" where
  "today_json kelvin hum pres icon report lon lat =
     JObj [(''coord'', JObj [(''lon'', lon), (''lat'', lat)]),
           (''weather'', weather_json icon report),
           (''main'', JObj [(''temp'', JNum kelvin), (''pressure'', pres), (''humidity'', hum)])]"

type_synonym day_fields = "real \<times> json \<times> json \<times> json \<times> json"

fun daily_json :: "day_fields \<Rightarrow> json" where
  "daily_json (kelvin, hum, pres, icon, report) =
     JObj [(''temp'', JObj [(''day'', JNum kelvin)]),
           (''pressure'', pres), (''humidity'', hum),
           (''weather'', weather_json icon report)]"

definition forecast_json :: "day_fields list \<Rightarrow> json" where
  "forecast_json days = JObj [(''daily'', JArr (map daily_json days))]"

text \<open>The record the source builds from one day.\<close>

fun day_record :: "config \<Rightarrow> day_fields \<Rightarrow> forecast_day" where
  "day_record cfg (kelvin, hum, pres, icon, report) =
     \<lparr>ow_temp = temperature_2_unit cfg (kelvin - 273.15), ow_hum = hum, ow_pres = pres,
      ow_icon = icon, ow_report = report\<rparr>"

subsection \<open>A sample environment\<close>

text \<open>
  A world in which every step succeeds: the network is up, the time server answers with
  2021-06-14 15:33:20 UTC, both weather endpoints answer 200, all devices are on the bus
  and the debug input is not asserted.
\<close>

definition demo_days :: "day_fields list" where
  "demo_days =
     [(290, JNum 60, JNum 1012, JStr ''04d'', JStr ''overcast clouds''),
      (291, JNum 55, JNum 1015, JStr ''01d'', JStr ''clear sky''),
      (289, JNum 70, JNum 1009, JStr ''10d'', JStr ''light rain''),
      (293, JNum 50, JNum 1018, JStr ''02d'', JStr ''few clouds'')]"

definition demo_today :: json where
  "demo_today =
     today_json 292 (JNum 58) (JNum 1013) (JStr ''03d'') (JStr ''scattered clouds'')
       (JNum 4.4) (JNum 51.2)"

definition demo_env :: env where
  "demo_env = \<lparr>
     debug_pin = (\<lambda>k. 1),
     isconnected = (\<lambda>k. True),
     wlan_connect = Inr (),
     ntp_time = Inr 677000000,
     http_get = (\<lambda>k u. case u of Url template args \<Rightarrow>
                   Inr \<lparr>status_code = 200,
                        json_body = Inr (if template = OPENWEATHER_URL1 default_config
                                         then demo_today else forecast_json demo_days)\<rparr>),
     i2c_scan = (\<lambda>k. [35, 60, 92, 119]),
     device_init = (\<lambda>d. Inr ()),
     am2320_measure = Inr (21.5, 40),
     bmp180_read = Inr (22, 101325, 12),
     bh1750_luminance = Inr 300,
     load_pbm = (\<lambda>f. Inr 0)
   \<rparr>"

text \<open>The same world with a network that never comes up.\<close>

definition no_wifi_env :: env where
  "no_wifi_env = demo_env\<lparr>isconnected := (\<lambda>k. False)\<rparr>"

text \<open>The same world with a time server that does not answer.\<close>

definition no_ntp_env :: env where
  "no_ntp_env = demo_env\<lparr>ntp_time := Inl (OSError 110)\<rparr>"

text \<open>The same world with the debug input pulled low.\<close>

definition debug_env :: env where
  "debug_env = demo_env\<lparr>debug_pin := (\<lambda>k. 0)\<rparr>"




definition no_oled_env :: env where
  "no_oled_env = demo_env\<lparr>i2c_scan := (\<lambda>k. [35, 92, 119])\<rparr>"

definition http_500_env :: env where
  "http_500_env =
     demo_env\<lparr>http_get := (\<lambda>k u. Inr \<lparr>status_code = 500, json_body = Inl ValueError\<rparr>)\<rparr>"

definition demo_reading :: sensor_reading where
  "demo_reading =
     \<lparr>am2320_temp = 21.5, am2320_hum = 40, bmp180_temp = 22, bmp180_pres = 1013.25,
      bmp180_alt = 12, bh1750_lum = 300\<rparr>"


text \<open>
  Two more worlds for the forecast fetch. In the first the weather service answers the
  second request with status 200 and an empty daily series. In the second it answers the
  first request with a document that carries more than the fetch reads, as the replies of
  the real service do.
\<close>

definition short_daily_env :: env where
  "short_daily_env =
     demo_env\<lparr>http_get := (\<lambda>k u. case u of Url template args \<Rightarrow>
       Inr \<lparr>status_code = 200,
            json_body = Inr (if template = OPENWEATHER_URL1 default_config
                             then demo_today else forecast_json [])\<rparr>)\<rparr>"

definition rich_today :: json where
  "rich_today =
     JObj [(''coord'', JObj [(''lon'', JNum 4.4), (''lat'', JNum 51.2)]),
           (''weather'', JArr [JObj [(''id'', JNum 802), (''main'', JStr ''Clouds''),
                                     (''description'', JStr ''scattered clouds''),
                                     (''icon'', JStr ''03d'')]]),
           (''base'', JStr ''stations''),
           (''main'', JObj [(''temp'', JNum 292), (''feels_like'', JNum 291.5),
                            (''pressure'', JNum 1013), (''humidity'', JNum 58)]),
           (''name'', JStr ''Antwerp''), (''cod'', JNum 200)]"

definition rich_env :: env where
  "rich_env =
     demo_env\<lparr>http_get := (\<lambda>k u. case u of Url template args \<Rightarrow>
       Inr \<lparr>status_code = 200,
            json_body = Inr (if template = OPENWEATHER_URL1 default_config
                             then rich_today else forecast_json demo_days)\<rparr>)\<rparr>"

subsection \<open>The fields the forecast fetch reads\<close>

text \<open>
  What it means for a document to hold the fields that \<open>get_weather_data\<close> reads: each
  path resolves, and the temperature is a number. \<open>holds_today\<close> speaks of the answer
  of the first endpoint, with the coordinates of the city, \<open>holds_day\<close> of one entry of
  the daily series in the answer of the second. The document may hold anything else
  besides. These two predicates are vocabulary for statements; the source's own
  extraction is \<open>extract_today\<close> and \<open>extract_daily\<close>.
\<close>

fun holds_today :: "json \<Rightarrow> day_fields \<Rightarrow> json \<Rightarrow> json \<Rightarrow> bool" where
  "holds_today today (kelvin, hum, pres, icon, report) lon lat \<longleftrightarrow>
     ebnd (jpath today [K ''main'', K ''temp'']) jnum = Inr kelvin \<and>
     jpath today [K ''main'', K ''humidity''] = Inr hum \<and>
     jpath today [K ''main'', K ''pressure''] = Inr pres \<and>
     jpath today [K ''weather'', I 0, K ''icon''] = Inr icon \<and>
     jpath today [K ''weather'', I 0, K ''description''] = Inr report \<and>
     jpath today [K ''coord'', K ''lon''] = Inr lon \<and>
     jpath today [K ''coord'', K ''lat''] = Inr lat"

fun holds_day :: "json \<Rightarrow> nat \<Rightarrow> day_fields \<Rightarrow> bool" where
  "holds_day forecast day (kelvin, hum, pres, icon, report) \<longleftrightarrow>
     ebnd (jpath forecast [K ''daily'', I day, K ''temp'', K ''day'']) jnum = Inr kelvin \<and>
     jpath forecast [K ''daily'', I day, K ''humidity''] = Inr hum \<and>
     jpath forecast [K ''daily'', I day, K ''pressure''] = Inr pres \<and>
     jpath forecast [K ''daily'', I day, K ''weather'', I 0, K ''icon''] = Inr icon \<and>
     jpath forecast [K ''daily'', I day, K ''weather'', I 0, K ''description''] = Inr report"

subsection \<open>The daylight saving window in the words of the specification\<close>

text \<open>
  The weekday (Monday = 0) of a date of the calendar above, and what it means for a day
  of a month to be the last Sunday of that month. These two definitions follow the
  specification, not the source; the source's formula is \<open>dst_day\<close>.
\<close>

definition weekday_of :: "nat \<Rightarrow> nat \<Rightarrow> nat \<Rightarrow> nat" where
  "weekday_of y m d = (days_before_year y + days_before_month y m + (d - 1) + 5) mod 7"

definition last_sunday :: "nat \<Rightarrow> nat \<Rightarrow> nat \<Rightarrow> bool" where
  "last_sunday y m d \<longleftrightarrow>
     1 \<le> d \<and> d \<le> days_in_month y m \<and> weekday_of y m d = 6 \<and> days_in_month y m < d + 7"

section \<open>Verification\<close>

subsection \<open>Rules for sequencing\<close>

lemma ret_apply [simp]: "ret x s = (Inr x, s)"
  by (simp add: ret_def)

lemma raise_apply [simp]: "raise e s = (Inl e, s)"
  by (simp add: raise_def)

lemma lift_apply [simp]: "lift r s = (r, s)"
  by (simp add: lift_def)

lemma bnd_assoc: "bnd (bnd m f) g = bnd m (\<lambda>x. bnd (f x) g)"
  by (rule ext) (simp add: bnd_def split: prod.splits sum.splits)

lemma bnd_ret [simp]: "bnd (ret x) f s = f x s"
  by (simp add: bnd_def ret_def)

lemma bnd_raise [simp]: "bnd (raise e) f s = (Inl e, s)"
  by (simp add: bnd_def raise_def)

lemma bnd_emit [simp]: "bnd (emit ev) f s = f () (s\<lparr>trace := trace s @ [ev]\<rparr>)"
  by (simp add: bnd_def emit_def)

lemma bnd_lift_Inr [simp]: "bnd (lift (Inr x)) f s = f x s"
  by (simp add: bnd_def lift_def)

lemma bnd_lift_Inl [simp]: "bnd (lift (Inl e)) f s = (Inl e, s)"
  by (simp add: bnd_def lift_def)

lemma bnd_Inr: "m s = (Inr x, s') \<Longrightarrow> bnd m f s = f x s'"
  by (simp add: bnd_def)

lemma bnd_Inl: "m s = (Inl e, s') \<Longrightarrow> bnd m f s = (Inl e, s')"
  by (simp add: bnd_def)

lemma bnd_debug_print [simp]:
  "bnd (debug_print cfg env) f s =
   f () (s\<lparr>trace := trace s @ [PinRead (DEBUG_PIN cfg)], debug_reads := Suc (debug_reads s)\<rparr>)"
  by (simp add: bnd_def debug_print_def debug_on_def)

lemma bnd_scan [simp]:
  "bnd (scan env) f s =
   f (i2c_scan env (scans s)) (s\<lparr>trace := trace s @ [I2cScan], scans := Suc (scans s)\<rparr>)"
  by (simp add: bnd_def scan_def)

lemma bnd_init_device [simp]:
  "bnd (init_device env d) f s =
   (case device_init env d of
      Inl e \<Rightarrow> (Inl e, s\<lparr>trace := trace s @ [DeviceInit d]\<rparr>)
    | Inr u \<Rightarrow> f () (s\<lparr>trace := trace s @ [DeviceInit d]\<rparr>))"
  by (simp add: init_device_def bnd_assoc split: sum.splits)

lemma bnd_http_request [simp]:
  "bnd (http_request env u) f s =
   (case http_get env (requests s) u of
      Inl e \<Rightarrow> (Inl e, s\<lparr>trace := trace s @ [HttpGet u], requests := Suc (requests s)\<rparr>)
    | Inr r \<Rightarrow> f r (s\<lparr>trace := trace s @ [HttpGet u], requests := Suc (requests s)\<rparr>))"
  by (simp add: bnd_def http_request_def split: sum.splits)

subsection \<open>The network join\<close>

lemma wifi_wait_eq:
  "wifi_wait cfg env tries s =
     s\<lparr>trace := trace s @ concat (replicate (waits cfg env tries (polls s)) [WlanIsconnected, Sleep 1])
                 @ [WlanIsconnected],
       polls := Suc (polls s + waits cfg env tries (polls s))\<rparr>"
proof (induction cfg env tries s rule: wifi_wait.induct)
  case (1 cfg env tries s)
  show ?case
  proof (cases "\<not> isconnected env (polls s) \<and> tries < MAX_TRIES cfg")
    case True
    then have w: "waits cfg env tries (polls s) = Suc (waits cfg env (tries + 1) (Suc (polls s)))"
      by (subst waits.simps) simp
    from "1.IH" [OF refl True] True show ?thesis
      by (subst wifi_wait.simps) (simp add: w poll_def emit_st_def Let_def)
  next
    case False
    then have w: "waits cfg env tries (polls s) = 0"
      by (subst waits.simps) auto
    from False show ?thesis
      by (subst wifi_wait.simps) (auto simp add: w poll_def Let_def)
  qed
qed

lemma waits_le: "waits cfg env tries p \<le> nat (MAX_TRIES cfg - tries)"
proof (induction cfg env tries p rule: waits.induct)
  case (1 cfg env tries p)
  show ?case
  proof (cases "\<not> isconnected env p \<and> tries < MAX_TRIES cfg")
    case True
    from "1.IH" [OF True] True show ?thesis
      by (subst waits.simps) (simp, linarith)
  next
    case False
    then show ?thesis by (subst waits.simps) auto
  qed
qed

lemma waits_never:
  "\<forall>k. \<not> isconnected env k \<Longrightarrow> waits cfg env tries p = nat (MAX_TRIES cfg - tries)"
proof (induction cfg env tries p rule: waits.induct)
  case (1 cfg env tries p)
  show ?case
  proof (cases "tries < MAX_TRIES cfg")
    case True
    with "1.prems" have c: "\<not> isconnected env p \<and> tries < MAX_TRIES cfg" by simp
    from "1.IH" [OF c "1.prems"] c True show ?thesis
      by (subst waits.simps) (simp add: nat_diff_distrib Suc_nat_eq_nat_zadd1)
  next
    case False
    then show ?thesis by (subst waits.simps) auto
  qed
qed

lemma bnd_poll [simp]:
  "bnd (poll env) f s =
   f (isconnected env (polls s))
     (s\<lparr>trace := trace s @ [WlanIsconnected], polls := Suc (polls s)\<rparr>)"
  by (simp add: bnd_def poll_def)

lemma bnd_total [simp]: "bnd (\<lambda>s. (Inr x, g s)) f s = f x (g s)"
  by (simp add: bnd_def)

lemma connect_wifi_eq:
  assumes "wlan_connect env = Inr ()"
  shows "connect_wifi cfg env s =
    (if isconnected env (polls s)
     then (if isconnected env (Suc (polls s)) then Inr ()
           else Inl (RuntimeError ''WiFi connection failed''),
           s\<lparr>trace := trace s @ [WlanActive AP_IF False, WlanIsconnected, WlanIsconnected],
             polls := polls s + 2\<rparr>)
     else (let n = waits cfg env 0 (Suc (polls s)) in
           (if isconnected env (polls s + n + 2) then Inr ()
            else Inl (RuntimeError ''WiFi connection failed''),
            s\<lparr>trace := trace s @
                   [WlanActive AP_IF False, WlanIsconnected, WlanActive STA_IF True,
                    WlanConnect (SSID cfg) (PASS cfg)]
                   @ concat (replicate n [WlanIsconnected, Sleep 1])
                   @ [WlanIsconnected, WlanIsconnected],
              polls := polls s + n + 3\<rparr>)))"
  using assms
  by (simp add: connect_wifi_def wifi_wait_eq Let_def bnd_assoc)

subsection \<open>The orchestrator\<close>

lemma steps_connect_wifi_fails:
  "connect_wifi cfg env s = (Inl e, s1) \<Longrightarrow> steps cfg env s = (Inl e, s1)"
  by (simp add: steps_def bnd_Inl)

lemma steps_synchronize_rtc_fails:
  "connect_wifi cfg env s = (Inr u, s1) \<Longrightarrow> synchronize_rtc cfg env s1 = (Inl e, s2) \<Longrightarrow>
   steps cfg env s = (Inl e, s2)"
  by (simp add: steps_def bnd_Inl bnd_Inr)

lemma steps_get_weather_data_fails:
  "connect_wifi cfg env s = (Inr u, s1) \<Longrightarrow> synchronize_rtc cfg env s1 = (Inr v, s2) \<Longrightarrow>
   get_weather_data cfg env s2 = (Inl e, s3) \<Longrightarrow>
   steps cfg env s = (Inl e, s3)"
  by (simp add: steps_def bnd_Inl bnd_Inr)

lemma steps_get_sensor_readings_fails:
  "connect_wifi cfg env s = (Inr u, s1) \<Longrightarrow> synchronize_rtc cfg env s1 = (Inr v, s2) \<Longrightarrow>
   get_weather_data cfg env s2 = (Inr ow, s3) \<Longrightarrow>
   get_sensor_readings cfg env s3 = (Inl e, s4) \<Longrightarrow>
   steps cfg env s = (Inl e, s4)"
  by (simp add: steps_def bnd_Inl bnd_Inr)

lemma steps_update_oled_display_fails:
  "connect_wifi cfg env s = (Inr u, s1) \<Longrightarrow> synchronize_rtc cfg env s1 = (Inr v, s2) \<Longrightarrow>
   get_weather_data cfg env s2 = (Inr ow, s3) \<Longrightarrow>
   get_sensor_readings cfg env s3 = (Inr sd, s4) \<Longrightarrow>
   update_oled_display cfg env ow sd s4 = (Inl e, s5) \<Longrightarrow>
   steps cfg env s = (Inl e, s5)"
  by (simp add: steps_def bnd_Inl bnd_Inr)

lemma steps_log_sensor_readings:
  "connect_wifi cfg env s = (Inr u, s1) \<Longrightarrow> synchronize_rtc cfg env s1 = (Inr v, s2) \<Longrightarrow>
   get_weather_data cfg env s2 = (Inr ow, s3) \<Longrightarrow>
   get_sensor_readings cfg env s3 = (Inr sd, s4) \<Longrightarrow>
   update_oled_display cfg env ow sd s4 = (Inr w, s5) \<Longrightarrow>
   steps cfg env s = log_sensor_readings cfg env sd s5"
  by (simp add: steps_def bnd_Inl bnd_Inr)

lemma show_error_trace:
  "show_error cfg s = s\<lparr>trace := trace s @ flash_once cfg @ flash_once cfg @ flash_once cfg\<rparr>"
  by (simp add: show_error_def numeral_3_eq_3)

lemma handler_eq:
  "handler cfg e s =
     s\<lparr>trace := trace s @ PrintException e # flash_once cfg @ flash_once cfg @ flash_once cfg\<rparr>"
  by (simp add: handler_def show_error_trace emit_st_def)

lemma sleep_decision_eq:
  "sleep_decision cfg env s =
     s\<lparr>trace := trace s @ PinRead (DEBUG_PIN cfg) #
                 (if debug_pin env (debug_reads s) = 0 then []
                  else [Sleep 2, Deepsleep (INTERVAL cfg * 1000)]),
       debug_reads := Suc (debug_reads s)\<rparr>"
  by (simp add: sleep_decision_def debug_on_def deepsleep_till_next_cycle_def emit_st_def)

lemma run_steps_fail:
  "steps cfg env s = (Inl e, s1) \<Longrightarrow> run cfg env s = sleep_decision cfg env (handler cfg e s1)"
  by (simp add: run_def try_steps_def)

lemma run_steps_ok:
  "steps cfg env s = (Inr u, s1) \<Longrightarrow> run cfg env s = sleep_decision cfg env s1"
  by (simp add: run_def try_steps_def)

lemma default_config_simps:
  "DEBUG_PIN default_config = 5" "LED_PIN default_config = 2"
  "LED_ON default_config = 0" "LED_OFF default_config = 1"
  "INTERVAL default_config = 900" "MAX_TRIES default_config = 20"
  "TIMEZONE default_config = 1" "DAYLIGHT_SAVING_TIME default_config"
  "\<not> FAHRENHEIT default_config"
  by (simp_all add: default_config_def)

subsection \<open>Sensors, display, upload and forecast\<close>




lemma get_sensor_readings_ok:
  assumes "device_init env AM2320 = Inr ()" "device_init env BMP180 = Inr ()"
    "device_init env BH1750 = Inr ()"
    and "92 \<in> set (i2c_scan env (Suc (scans s)))"
    and "am2320_measure env = Inr (t, h)"
    and "119 \<in> set (i2c_scan env (Suc (Suc (scans s))))"
    and "bmp180_read env = Inr (bt, bp, ba)"
    and "35 \<in> set (i2c_scan env (Suc (Suc (Suc (scans s)))))"
    and "bh1750_luminance env = Inr lum"
  shows "get_sensor_readings cfg env s =
    (Inr [\<lparr>am2320_temp = temperature_2_unit cfg t, am2320_hum = h,
           bmp180_temp = temperature_2_unit cfg bt, bmp180_pres = bp / 100,
           bmp180_alt = ba, bh1750_lum = lum\<rparr>],
     s\<lparr>trace := trace s @ [DeviceInit AM2320, I2cScan, I2cScan, Am2320Measure,
          PinRead (DEBUG_PIN cfg), DeviceInit BMP180, I2cScan, Bmp180Read,
          PinRead (DEBUG_PIN cfg), DeviceInit BH1750, I2cScan, Bh1750Luminance,
          PinRead (DEBUG_PIN cfg)],
       debug_reads := Suc (Suc (Suc (debug_reads s))),
       scans := Suc (Suc (Suc (Suc (scans s))))\<rparr>)"
  using assms by (simp add: get_sensor_readings_def)

lemma log_sensor_readings_eq:
  "log_sensor_readings cfg env (r # rs) s =
    (case http_get env (requests s) (thingspeak_url cfg r) of
       Inl e \<Rightarrow> Inl e
     | Inr resp \<Rightarrow> if status_code resp < 400 then Inr ()
                  else Inl (RuntimeError ''Webhook ThingSpeak failed''),
     s\<lparr>trace := trace s @ [HttpGet (thingspeak_url cfg r)], requests := Suc (requests s)\<rparr>)"
  by (simp add: log_sensor_readings_def nth_or_raise_def split: sum.splits)

lemma update_oled_display_no_oled:
  "60 \<notin> set (i2c_scan env (scans s)) \<Longrightarrow>
   update_oled_display cfg env ow sd s =
     (Inl (RuntimeError ''Cannot find OLED display''),
      s\<lparr>trace := trace s @ [I2cScan], scans := Suc (scans s)\<rparr>)"
  by (simp add: update_oled_display_def)


lemma extract_today_json:
  "extract_today cfg (today_json kelvin hum pres icon report lon lat) =
     Inr (day_record cfg (kelvin, hum, pres, icon, report))"
  by (simp add: extract_today_def today_json_def weather_json_def ebnd_def)

lemma coord_today_json:
  "jpath (today_json kelvin hum pres icon report lon lat) [K ''coord'', K ''lon''] = Inr lon"
  "jpath (today_json kelvin hum pres icon report lon lat) [K ''coord'', K ''lat''] = Inr lat"
  by (simp_all add: today_json_def ebnd_def)

lemma extract_daily_json:
  assumes "i < length days"
  shows "extract_daily cfg (forecast_json days) i = Inr (day_record cfg (days ! i))"
proof -
  obtain kelvin hum pres icon report where d: "days ! i = (kelvin, hum, pres, icon, report)"
    by (cases "days ! i")
  from assms have "jidx (JArr (map daily_json days)) i = Inr (daily_json (days ! i))"
    by simp
  then show ?thesis
    by (simp add: extract_daily_def forecast_json_def weather_json_def ebnd_def d)
qed

lemma extract_daily_short:
  assumes "\<not> i < length days"
  shows "extract_daily cfg (forecast_json days) i = Inl IndexError"
  using assms by (simp add: extract_daily_def forecast_json_def ebnd_def)

lemma forecast_loop_json:
  assumes "4 \<le> length days"
  shows "forecast_loop cfg (forecast_json days) [1..<4] [d0] =
     Inr [d0, day_record cfg (days ! 1), day_record cfg (days ! 2), day_record cfg (days ! 3)]"
proof -
  have r: "[1..<4] = [1, 2, 3::nat]" by (simp add: upt_rec)
  from assms have l: "1 < length days" "2 < length days" "3 < length days" by simp_all
  note e = l [THEN extract_daily_json, of cfg]
  show ?thesis
    unfolding r
    by (simp only: forecast_loop.simps e ebnd_def sum.case append.simps)
qed

lemma ebnd_Inr [simp]: "ebnd (Inr x) f = f x"
  by (simp add: ebnd_def)

lemma ebnd_Inl [simp]: "ebnd (Inl e) f = Inl e"
  by (simp add: ebnd_def)

lemma get_weather_data_ok:
  assumes "http_get env (requests s) (url1 cfg) =
             Inr \<lparr>status_code = c1,
                  json_body = Inr (today_json kelvin hum pres icon report lon lat)\<rparr>"
    and "c1 < 400"
    and "http_get env (Suc (requests s)) (url2 cfg lat lon) =
             Inr \<lparr>status_code = c2, json_body = Inr (forecast_json days)\<rparr>"
    and "c2 < 400"
    and "4 \<le> length days"
  shows "get_weather_data cfg env s =
    (Inr [day_record cfg (kelvin, hum, pres, icon, report),
          day_record cfg (days ! 1), day_record cfg (days ! 2), day_record cfg (days ! 3)],
     s\<lparr>trace := trace s @ [HttpGet (url1 cfg), PinRead (DEBUG_PIN cfg),
          HttpGet (url2 cfg lat lon), PinRead (DEBUG_PIN cfg), PinRead (DEBUG_PIN cfg)],
       requests := Suc (Suc (requests s)),
       debug_reads := Suc (Suc (Suc (debug_reads s)))\<rparr>)"
proof -
  have second: "http_get env
      (requests (s\<lparr>trace := trace s @ [HttpGet (url1 cfg)], requests := Suc (requests s)\<rparr>
                  \<lparr>trace := trace (s\<lparr>trace := trace s @ [HttpGet (url1 cfg)],
                                      requests := Suc (requests s)\<rparr>) @ [PinRead (DEBUG_PIN cfg)],
                    debug_reads := Suc (debug_reads (s\<lparr>trace := trace s @ [HttpGet (url1 cfg)],
                                      requests := Suc (requests s)\<rparr>))\<rparr>))
      (url2 cfg lat lon) =
      Inr \<lparr>status_code = c2, json_body = Inr (forecast_json days)\<rparr>"
    using assms(3) by simp
  show ?thesis
    unfolding get_weather_data_def
    apply (simp only: bnd_http_request assms(1) sum.case response.select_convs assms(2) assms(4)
        if_True bnd_ret bnd_lift_Inr bnd_debug_print extract_today_json coord_today_json
        second forecast_loop_json [OF assms(5)] ret_apply)
    apply simp
    done
qed

lemma get_weather_data_status1:
  assumes "http_get env (requests s) (url1 cfg) = Inr resp" and "\<not> status_code resp < 400"
  shows "get_weather_data cfg env s =
    (Inl (RuntimeError ''Webhook OpenWeather URL1 failed''),
     s\<lparr>trace := trace s @ [HttpGet (url1 cfg)], requests := Suc (requests s)\<rparr>)"
  using assms by (simp add: get_weather_data_def)

lemma get_weather_data_status2:
  assumes "http_get env (requests s) (url1 cfg) =
             Inr \<lparr>status_code = c1,
                  json_body = Inr (today_json kelvin hum pres icon report lon lat)\<rparr>"
    and "c1 < 400"
    and "http_get env (Suc (requests s)) (url2 cfg lat lon) = Inr resp"
    and "\<not> status_code resp < 400"
  shows "get_weather_data cfg env s =
    (Inl (RuntimeError ''Webhook OpenWeather URL1 failed''),
     s\<lparr>trace := trace s @ [HttpGet (url1 cfg), PinRead (DEBUG_PIN cfg),
          HttpGet (url2 cfg lat lon)],
       requests := Suc (Suc (requests s)),
       debug_reads := Suc (debug_reads s)\<rparr>)"
proof -
  have second: "http_get env
      (requests (s\<lparr>trace := trace s @ [HttpGet (url1 cfg)], requests := Suc (requests s)\<rparr>
                  \<lparr>trace := trace (s\<lparr>trace := trace s @ [HttpGet (url1 cfg)],
                                      requests := Suc (requests s)\<rparr>) @ [PinRead (DEBUG_PIN cfg)],
                    debug_reads := Suc (debug_reads (s\<lparr>trace := trace s @ [HttpGet (url1 cfg)],
                                      requests := Suc (requests s)\<rparr>))\<rparr>))
      (url2 cfg lat lon) = Inr resp"
    using assms(3) by simp
  show ?thesis
    unfolding get_weather_data_def
    apply (simp only: bnd_http_request assms(1) sum.case response.select_convs assms(2) assms(4)
        if_True if_False bnd_ret bnd_raise bnd_lift_Inr bnd_debug_print extract_today_json
        coord_today_json second)
    apply simp
    done
qed

lemma forecast_loop_short:
  "forecast_loop cfg (forecast_json []) [1..<4] [d0] = Inl IndexError"
proof -
  have r: "[1..<4] = [1, 2, 3::nat]" by (simp add: upt_rec)
  have e: "extract_daily cfg (forecast_json []) 1 = Inl IndexError"
    by (rule extract_daily_short) simp
  show ?thesis unfolding r by (simp only: forecast_loop.simps e ebnd_Inl)
qed

lemma http_500_env_get:
  "http_get http_500_env k u = Inr \<lparr>status_code = 500, json_body = Inl ValueError\<rparr>"
  by (simp add: http_500_env_def)

lemma demo_env_get:
  "http_get demo_env k (url1 default_config) =
     Inr \<lparr>status_code = 200, json_body = Inr demo_today\<rparr>"
  "http_get demo_env k (url2 default_config lat lon) =
     Inr \<lparr>status_code = 200, json_body = Inr (forecast_json demo_days)\<rparr>"
  "http_get demo_env k (thingspeak_url default_config r) =
     Inr \<lparr>status_code = 200, json_body = Inr (forecast_json demo_days)\<rparr>"
  by (simp_all add: demo_env_def url1_def url2_def thingspeak_url_def default_config_def)

lemma demo_days_nth:
  "demo_days ! Suc 0 = (291, JNum 55, JNum 1015, JStr ''01d'', JStr ''clear sky'')"
  "demo_days ! 2 = (289, JNum 70, JNum 1009, JStr ''10d'', JStr ''light rain'')"
  "demo_days ! 3 = (293, JNum 50, JNum 1018, JStr ''02d'', JStr ''few clouds'')"
  "length demo_days = 4"
  by (simp_all add: demo_days_def)

lemma no_oled_env_fields:
  "device_init no_oled_env d = Inr ()"
  "am2320_measure no_oled_env = Inr (21.5, 40)"
  "bmp180_read no_oled_env = Inr (22, 101325, 12)"
  "bh1750_luminance no_oled_env = Inr 300"
  "i2c_scan no_oled_env k = [35, 92, 119]"
  "isconnected no_oled_env k"
  "wlan_connect no_oled_env = Inr ()"
  "debug_pin no_oled_env k = 1"
  "http_get no_oled_env = http_get demo_env"
  by (simp_all add: no_oled_env_def demo_env_def)

text \<open>
  The fetch on any two documents that hold the fields it reads, and on a second document
  without the entry 1 of the daily series.
\<close>

lemma ebnd_eq_Inr: "ebnd r f = Inr y \<longleftrightarrow> (\<exists>x. r = Inr x \<and> f x = Inr y)"
  by (cases r) (simp_all add: ebnd_def)

lemma extract_today_holds:
  assumes "holds_today today d lon lat"
  shows "extract_today cfg today = Inr (day_record cfg d)"
proof -
  obtain kelvin hum pres icon report where d: "d = (kelvin, hum, pres, icon, report)"
    by (cases d)
  from assms obtain tv where
    "jpath today [K ''main'', K ''temp''] = Inr tv" "jnum tv = Inr kelvin"
    "jpath today [K ''main'', K ''humidity''] = Inr hum"
    "jpath today [K ''main'', K ''pressure''] = Inr pres"
    "jpath today [K ''weather'', I 0, K ''icon''] = Inr icon"
    "jpath today [K ''weather'', I 0, K ''description''] = Inr report"
    unfolding d holds_today.simps ebnd_eq_Inr by blast
  then show ?thesis
    unfolding extract_today_def d by (simp only: ebnd_Inr day_record.simps)
qed

lemma coord_holds:
  assumes "holds_today today d lon lat"
  shows "jpath today [K ''coord'', K ''lon''] = Inr lon"
    and "jpath today [K ''coord'', K ''lat''] = Inr lat"
  using assms by (cases d; simp only: holds_today.simps)+

lemma extract_daily_holds:
  assumes "holds_day forecast day d"
  shows "extract_daily cfg forecast day = Inr (day_record cfg d)"
proof -
  obtain kelvin hum pres icon report where d: "d = (kelvin, hum, pres, icon, report)"
    by (cases d)
  from assms obtain tv where
    "jpath forecast [K ''daily'', I day, K ''temp'', K ''day''] = Inr tv" "jnum tv = Inr kelvin"
    "jpath forecast [K ''daily'', I day, K ''humidity''] = Inr hum"
    "jpath forecast [K ''daily'', I day, K ''pressure''] = Inr pres"
    "jpath forecast [K ''daily'', I day, K ''weather'', I 0, K ''icon''] = Inr icon"
    "jpath forecast [K ''daily'', I day, K ''weather'', I 0, K ''description''] = Inr report"
    unfolding d holds_day.simps ebnd_eq_Inr by blast
  then show ?thesis
    unfolding extract_daily_def d by (simp only: ebnd_Inr day_record.simps)
qed

lemma forecast_loop_holds:
  assumes "holds_day forecast 1 d1" "holds_day forecast 2 d2" "holds_day forecast 3 d3"
  shows "forecast_loop cfg forecast [1..<4] [d0] =
     Inr [d0, day_record cfg d1, day_record cfg d2, day_record cfg d3]"
proof -
  have r: "[1..<4] = [1, 2, 3::nat]" by (simp add: upt_rec)
  note e = assms [THEN extract_daily_holds, of cfg]
  show ?thesis
    unfolding r
    by (simp only: forecast_loop.simps e ebnd_def sum.case append.simps)
qed

lemma get_weather_data_holds:
  assumes "http_get env (requests s) (url1 cfg) =
             Inr \<lparr>status_code = c1, json_body = Inr today\<rparr>"
    and "c1 < 400"
    and "holds_today today d0 lon lat"
    and "http_get env (Suc (requests s)) (url2 cfg lat lon) =
             Inr \<lparr>status_code = c2, json_body = Inr forecast\<rparr>"
    and "c2 < 400"
    and "holds_day forecast 1 d1" "holds_day forecast 2 d2" "holds_day forecast 3 d3"
  shows "get_weather_data cfg env s =
    (Inr [day_record cfg d0, day_record cfg d1, day_record cfg d2, day_record cfg d3],
     s\<lparr>trace := trace s @ [HttpGet (url1 cfg), PinRead (DEBUG_PIN cfg),
          HttpGet (url2 cfg lat lon), PinRead (DEBUG_PIN cfg), PinRead (DEBUG_PIN cfg)],
       requests := Suc (Suc (requests s)),
       debug_reads := Suc (Suc (Suc (debug_reads s)))\<rparr>)"
proof -
  have second: "http_get env
      (requests (s\<lparr>trace := trace s @ [HttpGet (url1 cfg)], requests := Suc (requests s)\<rparr>
                  \<lparr>trace := trace (s\<lparr>trace := trace s @ [HttpGet (url1 cfg)],
                                      requests := Suc (requests s)\<rparr>) @ [PinRead (DEBUG_PIN cfg)],
                    debug_reads := Suc (debug_reads (s\<lparr>trace := trace s @ [HttpGet (url1 cfg)],
                                      requests := Suc (requests s)\<rparr>))\<rparr>))
      (url2 cfg lat lon) =
      Inr \<lparr>status_code = c2, json_body = Inr forecast\<rparr>"
    using assms(4) by simp
  show ?thesis
    unfolding get_weather_data_def
    apply (simp only: bnd_http_request assms(1) sum.case response.select_convs assms(2) assms(5)
        if_True bnd_ret bnd_lift_Inr bnd_debug_print extract_today_holds [OF assms(3)]
        coord_holds [OF assms(3)] second forecast_loop_holds [OF assms(6-8)] ret_apply)
    apply simp
    done
qed

lemma get_weather_data_holds_status2:
  assumes "http_get env (requests s) (url1 cfg) =
             Inr \<lparr>status_code = c1, json_body = Inr today\<rparr>"
    and "c1 < 400"
    and "holds_today today d0 lon lat"
    and "http_get env (Suc (requests s)) (url2 cfg lat lon) = Inr resp"
    and "\<not> status_code resp < 400"
  shows "get_weather_data cfg env s =
    (Inl (RuntimeError ''Webhook OpenWeather URL1 failed''),
     s\<lparr>trace := trace s @ [HttpGet (url1 cfg), PinRead (DEBUG_PIN cfg),
          HttpGet (url2 cfg lat lon)],
       requests := Suc (Suc (requests s)),
       debug_reads := Suc (debug_reads s)\<rparr>)"
proof -
  have second: "http_get env
      (requests (s\<lparr>trace := trace s @ [HttpGet (url1 cfg)], requests := Suc (requests s)\<rparr>
                  \<lparr>trace := trace (s\<lparr>trace := trace s @ [HttpGet (url1 cfg)],
                                      requests := Suc (requests s)\<rparr>) @ [PinRead (DEBUG_PIN cfg)],
                    debug_reads := Suc (debug_reads (s\<lparr>trace := trace s @ [HttpGet (url1 cfg)],
                                      requests := Suc (requests s)\<rparr>))\<rparr>))
      (url2 cfg lat lon) = Inr resp"
    using assms(4) by simp
  show ?thesis
    unfolding get_weather_data_def
    apply (simp only: bnd_http_request assms(1) sum.case response.select_convs assms(2) assms(5)
        if_True if_False bnd_ret bnd_raise bnd_lift_Inr bnd_debug_print
        extract_today_holds [OF assms(3)] coord_holds [OF assms(3)] second)
    apply simp
    done
qed

lemma holds_today_json:
  "holds_today (today_json kelvin hum pres icon report lon lat)
     (kelvin, hum, pres, icon, report) lon lat"
  by (simp add: today_json_def weather_json_def)

lemma holds_day_json:
  assumes "i < length days"
  shows "holds_day (forecast_json days) i (days ! i)"
proof -
  obtain kelvin hum pres icon report where d: "days ! i = (kelvin, hum, pres, icon, report)"
    by (cases "days ! i")
  from assms have "jidx (JArr (map daily_json days)) i = Inr (daily_json (days ! i))"
    by simp
  then show ?thesis
    by (simp add: forecast_json_def weather_json_def d)
qed

lemma forecast_loop_fails_first:
  assumes "extract_daily cfg forecast 1 = Inl e"
  shows "forecast_loop cfg forecast [1..<4] [d0] = Inl e"
proof -
  have r: "[1..<4] = [1, 2, 3::nat]" by (simp add: upt_rec)
  show ?thesis unfolding r by (simp only: forecast_loop.simps assms ebnd_Inl)
qed

lemma get_weather_data_no_entry:
  assumes "http_get env (requests s) (url1 cfg) =
             Inr \<lparr>status_code = c1, json_body = Inr today\<rparr>"
    and "c1 < 400"
    and "holds_today today d0 lon lat"
    and "http_get env (Suc (requests s)) (url2 cfg lat lon) =
             Inr \<lparr>status_code = c2, json_body = Inr forecast\<rparr>"
    and "c2 < 400"
    and "extract_daily cfg forecast 1 = Inl e"
  shows "fst (get_weather_data cfg env s) = Inl e"
proof -
  have second: "http_get env
      (requests (s\<lparr>trace := trace s @ [HttpGet (url1 cfg)], requests := Suc (requests s)\<rparr>
                  \<lparr>trace := trace (s\<lparr>trace := trace s @ [HttpGet (url1 cfg)],
                                      requests := Suc (requests s)\<rparr>) @ [PinRead (DEBUG_PIN cfg)],
                    debug_reads := Suc (debug_reads (s\<lparr>trace := trace s @ [HttpGet (url1 cfg)],
                                      requests := Suc (requests s)\<rparr>))\<rparr>))
      (url2 cfg lat lon) =
      Inr \<lparr>status_code = c2, json_body = Inr forecast\<rparr>"
    using assms(4) by simp
  show ?thesis
    unfolding get_weather_data_def
    apply (simp only: bnd_http_request assms(1) sum.case response.select_convs assms(2) assms(5)
        if_True bnd_ret bnd_lift_Inr bnd_lift_Inl bnd_debug_print
        extract_today_holds [OF assms(3)] coord_holds [OF assms(3)] second
        forecast_loop_fails_first [OF assms(6)])
    apply simp
    done
qed

lemma holds_rich_today:
  "holds_today rich_today (292, JNum 58, JNum 1013, JStr ''03d'', JStr ''scattered clouds'')
     (JNum 4.4) (JNum 51.2)"
  by (simp add: rich_today_def)

lemma rich_env_get:
  "http_get rich_env k (url1 default_config) =
     Inr \<lparr>status_code = 200, json_body = Inr rich_today\<rparr>"
  "http_get rich_env k (url2 default_config lat lon) =
     Inr \<lparr>status_code = 200, json_body = Inr (forecast_json demo_days)\<rparr>"
  by (simp_all add: rich_env_def url1_def url2_def default_config_def)

lemma short_daily_env_get:
  "http_get short_daily_env k (url1 default_config) =
     Inr \<lparr>status_code = 200, json_body = Inr demo_today\<rparr>"
  "http_get short_daily_env k (url2 default_config lat lon) =
     Inr \<lparr>status_code = 200, json_body = Inr (forecast_json [])\<rparr>"
  by (simp_all add: short_daily_env_def url1_def url2_def default_config_def)

subsection \<open>The calendar\<close>

lemma split_year_sum:
  "split_year y d = (y', r) \<Longrightarrow>
   y \<le> y' \<and> sum_list (map days_in_year [y..<y']) + r = d \<and> r < days_in_year y'"
proof (induction y d arbitrary: y' r rule: split_year.induct)
  case (1 y d)
  show ?case
  proof (cases "d < days_in_year y")
    case True
    with "1.prems" show ?thesis by (simp add: split_year.simps [of y d])
  next
    case False
    with "1.prems" have rec: "split_year (Suc y) (d - days_in_year y) = (y', r)"
      by (simp add: split_year.simps [of y d])
    from "1.IH" [OF False rec]
    have ih: "Suc y \<le> y'" "sum_list (map days_in_year [Suc y..<y']) + r = d - days_in_year y"
      "r < days_in_year y'" by simp_all
    from ih(1) have "[y..<y'] = y # [Suc y..<y']" by (simp add: upt_conv_Cons)
    with ih False show ?thesis by simp
  qed
qed

lemma split_month_sum:
  "split_month y m d = (m', r) \<Longrightarrow>
   m \<le> m' \<and> sum_list (map (days_in_month y) [m..<m']) + r = d"
proof (induction y m d arbitrary: m' r rule: split_month.induct)
  case (1 y m d)
  show ?case
  proof (cases "12 \<le> m \<or> d < days_in_month y m")
    case True
    with "1.prems" show ?thesis by (simp add: split_month.simps [of y m d])
  next
    case False
    then have ge: "days_in_month y m \<le> d" by simp
    from False "1.prems" have rec: "split_month y (Suc m) (d - days_in_month y m) = (m', r)"
      by (simp add: split_month.simps [of y m d])
    from "1.IH" [OF False rec]
    have ih: "Suc m \<le> m'" "sum_list (map (days_in_month y) [Suc m..<m']) + r = d - days_in_month y m"
      by simp_all
    from ih(1) have "[m..<m'] = m # [Suc m..<m']" by (simp add: upt_conv_Cons)
    with ih ge show ?thesis by simp
  qed
qed

lemma seconds_of_day: "(r::nat) mod 60 + r mod 3600 div 60 * 60 + r div 3600 * 3600 = r"
proof -
  have "r mod 3600 mod 60 = r mod 60" by (simp add: mod_mod_cancel)
  then have "r mod 60 + r mod 3600 div 60 * 60 = r mod 3600"
    by (metis add.commute div_mult_mod_eq)
  then show ?thesis by simp
qed

lemma localtime_fields:
  assumes "split_year 2000 (x div 86400) = (y, yd)" and "split_month y 1 yd = (m, md)"
  shows "localtime x =
         \<lparr>tm_year = y, tm_mon = m, tm_mday = Suc md,
          tm_hour = x mod 86400 div 3600, tm_min = x mod 86400 mod 3600 div 60,
          tm_sec = x mod 86400 mod 60,
          tm_wday = (x div 86400 + 5) mod 7, tm_yday = Suc yd\<rparr>"
  using assms by (simp add: localtime_def Let_def)

lemma mktime_localtime: "mktime (localtime x) = x"
proof -
  obtain y yd where sy: "split_year 2000 (x div 86400) = (y, yd)" by (cases "split_year 2000 (x div 86400)")
  obtain m md where sm: "split_month y 1 yd = (m, md)" by (cases "split_month y 1 yd")
  from split_year_sum [OF sy] have a: "days_before_year y + yd = x div 86400"
    by (simp add: days_before_year_def)
  from split_month_sum [OF sm] have b: "days_before_month y m + md = yd"
    by (simp add: days_before_month_def)
  from a b have days: "days_before_year y + days_before_month y m + md = x div 86400"
    by simp
  define r where "r = x mod 86400"
  have "mktime (localtime x) =
        (r mod 60 + r mod 3600 div 60 * 60 + r div 3600 * 3600) + x div 86400 * 86400"
    by (simp add: mktime_def localtime_fields [OF sy sm] days r_def)
  also have "\<dots> = r + x div 86400 * 86400"
    by (simp only: seconds_of_day)
  finally show ?thesis by (simp add: r_def)
qed

lemma tm_year_localtime_ge: "2000 \<le> tm_year (localtime x)"
proof -
  obtain y yd where sy: "split_year 2000 (x div 86400) = (y, yd)" by (cases "split_year 2000 (x div 86400)")
  obtain m md where sm: "split_month y 1 yd = (m, md)" by (cases "split_month y 1 yd")
  from split_year_sum [OF sy] show ?thesis by (simp add: localtime_fields [OF sy sm])
qed

lemma tm_year_2000_iff: "tm_year (localtime x) = 2000 \<longleftrightarrow> x < 31622400"
proof -
  obtain y yd where sy: "split_year 2000 (x div 86400) = (y, yd)" by (cases "split_year 2000 (x div 86400)")
  obtain m md where sm: "split_month y 1 yd = (m, md)" by (cases "split_month y 1 yd")
  have yr: "tm_year (localtime x) = y" by (simp add: localtime_fields [OF sy sm])
  have leap: "days_in_year 2000 = 366" by (simp add: days_in_year_def is_leap_year_def)
  have key: "x div 86400 < 366 \<longleftrightarrow> x < 31622400"
    by (simp add: div_less_iff_less_mult)
  show ?thesis
  proof (cases "x div 86400 < 366")
    case True
    then have "split_year 2000 (x div 86400) = (2000, x div 86400)"
      by (simp add: split_year.simps [of 2000] leap)
    with sy have "y = 2000" by simp
    moreover from True key have "x < 31622400" by blast
    ultimately show ?thesis using yr by simp
  next
    case False
    then have "split_year 2000 (x div 86400) = split_year (Suc 2000) (x div 86400 - 366)"
      by (simp add: split_year.simps [of 2000] leap)
    with sy split_year_sum [of "Suc 2000" "x div 86400 - 366" y yd] have "2001 \<le> y" by simp
    moreover from False key have "\<not> x < 31622400" by blast
    ultimately show ?thesis using yr by simp
  qed
qed

subsection \<open>The source's formula for the last Sunday\<close>

lemma leap_century: "2000 \<le> y \<Longrightarrow> y < 2100 \<Longrightarrow> is_leap_year y \<longleftrightarrow> y mod 4 = 0"
  unfolding is_leap_year_def by presburger

lemma days_before_year_Suc:
  "days_before_year (Suc (2000 + n)) = days_before_year (2000 + n) + days_in_year (2000 + n)"
  unfolding days_before_year_def
  by (simp only: upt_Suc_append le_add1 map_append sum_list_append list.map sum_list.Cons
      sum_list.Nil add_0_right)

lemma days_before_year_closed:
  "n \<le> 100 \<Longrightarrow> days_before_year (2000 + n) = 365 * n + (n + 3) div 4"
proof (induction n)
  case 0
  show ?case by (simp add: days_before_year_def)
next
  case (Suc n)
  then have n: "n < 100" and ih: "days_before_year (2000 + n) = 365 * n + (n + 3) div 4"
    by simp_all
  from n have "is_leap_year (2000 + n) \<longleftrightarrow> (2000 + n) mod 4 = 0"
    by (simp add: leap_century)
  moreover have "(2000 + n) mod 4 = n mod 4" by presburger
  ultimately have leap: "is_leap_year (2000 + n) \<longleftrightarrow> n mod 4 = 0" by simp
  have "days_before_year (2000 + Suc n) = days_before_year (2000 + n) + days_in_year (2000 + n)"
    using days_before_year_Suc [of n] by (simp only: add_Suc_right)
  also have "\<dots> = 365 * n + (n + 3) div 4 + (if n mod 4 = 0 then 366 else 365)"
    by (simp add: ih days_in_year_def leap)
  also have "\<dots> = 365 * Suc n + (Suc n + 3) div 4"
    by presburger
  finally show ?case .
qed

lemma days_before_year_century:
  assumes "2000 \<le> y" "y \<le> 2100"
  shows "days_before_year y = 365 * (y - 2000) + (y - 2000 + 3) div 4"
  using days_before_year_closed [of "y - 2000"] assms by simp

lemma days_before_march: "days_before_month y 3 = (if is_leap_year y then 60 else 59)"
  by (simp add: days_before_month_def days_in_month_def upt_conv_Cons)

lemma days_before_october: "days_before_month y 10 = (if is_leap_year y then 274 else 273)"
  by (simp add: days_before_month_def days_in_month_def upt_conv_Cons)

lemma leap_day_closed:
  assumes "2000 \<le> (y::nat)"
  shows "(if y mod 4 = 0 then Suc k else k) = Suc k - ((y - 2000) mod 4 + 3) div 4"
proof -
  from assms obtain n where y: "y = 2000 + n" by (auto simp: le_iff_add)
  define m where "m = n mod 4"
  have ym: "(2000 + n) mod 4 = m"
    unfolding m_def by presburger
  have "m < 4" unfolding m_def by simp
  then have "m = 0 \<or> m = 1 \<or> m = 2 \<or> m = 3" by arith
  then have "(if m = 0 then Suc k else k) = Suc k - (m + 3) div 4" by auto
  then show ?thesis unfolding y ym by (simp add: m_def)
qed

lemma march_enum:
  "list_all (\<lambda>y. (365 * (y - 2000) + (y - 2000 + 3) div 4 + (60 - ((y - 2000) mod 4 + 3) div 4)
      + (31 - (5 * y div 4 + 4) mod 7 - 1) + 5) mod 7 = (6::nat)) [2000..<2100]"
  by simp

lemma october_enum:
  "list_all (\<lambda>y. (365 * (y - 2000) + (y - 2000 + 3) div 4 + (274 - ((y - 2000) mod 4 + 3) div 4)
      + (31 - (5 * y div 4 + 1) mod 7 - 1) + 5) mod 7 = (6::nat)) [2000..<2100]"
  by simp

lemma days_before_march_closed:
  assumes "2000 \<le> y" "y < 2100"
  shows "days_before_month y 3 = 60 - ((y - 2000) mod 4 + 3) div 4"
proof -
  have "days_before_month y 3 = (if y mod 4 = 0 then Suc 59 else 59)"
    using assms by (simp add: days_before_march leap_century)
  also have "\<dots> = Suc 59 - ((y - 2000) mod 4 + 3) div 4"
    by (rule leap_day_closed [OF assms(1)])
  also have "Suc 59 = 60" by simp
  finally show ?thesis .
qed

lemma days_before_october_closed:
  assumes "2000 \<le> y" "y < 2100"
  shows "days_before_month y 10 = 274 - ((y - 2000) mod 4 + 3) div 4"
proof -
  have "days_before_month y 10 = (if y mod 4 = 0 then Suc 273 else 273)"
    using assms by (simp add: days_before_october leap_century)
  also have "\<dots> = Suc 273 - ((y - 2000) mod 4 + 3) div 4"
    by (rule leap_day_closed [OF assms(1)])
  also have "Suc 273 = 274" by simp
  finally show ?thesis .
qed

lemma march_sunday:
  assumes "2000 \<le> y" "y < 2100"
  shows "weekday_of y 3 (dst_day y 4) = 6"
proof -
  have "y \<in> set [2000..<2100]" unfolding set_upt using assms by simp
  with march_enum [unfolded list_all_iff]
  have e: "(365 * (y - 2000) + (y - 2000 + 3) div 4 + (60 - ((y - 2000) mod 4 + 3) div 4)
      + (31 - (5 * y div 4 + 4) mod 7 - 1) + 5) mod 7 = 6" by (rule bspec)
  have dby: "days_before_year y = 365 * (y - 2000) + (y - 2000 + 3) div 4"
    using assms by (intro days_before_year_century) simp_all
  show ?thesis
    unfolding weekday_of_def dst_day_def dby days_before_march_closed [OF assms] by (rule e)
qed

lemma october_sunday:
  assumes "2000 \<le> y" "y < 2100"
  shows "weekday_of y 10 (dst_day y 1) = 6"
proof -
  have "y \<in> set [2000..<2100]" unfolding set_upt using assms by simp
  with october_enum [unfolded list_all_iff]
  have e: "(365 * (y - 2000) + (y - 2000 + 3) div 4 + (274 - ((y - 2000) mod 4 + 3) div 4)
      + (31 - (5 * y div 4 + 1) mod 7 - 1) + 5) mod 7 = 6" by (rule bspec)
  have dby: "days_before_year y = 365 * (y - 2000) + (y - 2000 + 3) div 4"
    using assms by (intro days_before_year_century) simp_all
  show ?thesis
    unfolding weekday_of_def dst_day_def dby days_before_october_closed [OF assms] by (rule e)
qed

lemma dst_day_range: "25 \<le> dst_day y k \<and> dst_day y k \<le> 31"
proof -
  have "(5 * y div 4 + k) mod 7 < 7" by simp
  then show ?thesis unfolding dst_day_def by linarith
qed

lemma last_sunday_march:
  assumes "2000 \<le> y" "y < 2100"
  shows "last_sunday y 3 (dst_day y 4)"
  using dst_day_range [of y 4] march_sunday [OF assms]
  by (simp add: last_sunday_def days_in_month_def)

lemma last_sunday_october:
  assumes "2000 \<le> y" "y < 2100"
  shows "last_sunday y 10 (dst_day y 1)"
  using dst_day_range [of y 1] october_sunday [OF assms]
  by (simp add: last_sunday_def days_in_month_def)


subsection \<open>The unit converter\<close>

text \<open>
  C3: for every Celsius input \<open>c\<close> the converter returns \<open>c * 9 / 5 + 32\<close> when the
  Fahrenheit flag of the configuration is set, and \<open>c\<close> itself when it is not. The
  temperature is a real number here; the rounding of the device's floating point
  arithmetic is outside the model.
\<close>

theorem temperature_2_unit_spec:
  "temperature_2_unit (cfg\<lparr>FAHRENHEIT := True\<rparr>) c = c * 9 / 5 + 32 \<and>
   temperature_2_unit (cfg\<lparr>FAHRENHEIT := False\<rparr>) c = c"
  by (simp add: temperature_2_unit_def)

subsection \<open>The time synchronizer\<close>

lemma set_rtc_from_localtime:
  "set_rtc_from (localtime x) s =
     (Inr (),
      s\<lparr>trace := trace s @
           [RtcDatetime (tm_year (localtime x)) (tm_mon (localtime x)) (tm_mday (localtime x))
              (tm_wday (localtime x)) (tm_hour (localtime x)) (tm_min (localtime x))
              (tm_sec (localtime x)) 0],
        rtc := x\<rparr>)"
proof -
  have "mktime \<lparr>tm_year = tm_year (localtime x), tm_mon = tm_mon (localtime x),
                tm_mday = tm_mday (localtime x), tm_hour = tm_hour (localtime x),
                tm_min = tm_min (localtime x), tm_sec = tm_sec (localtime x),
                tm_wday = 0, tm_yday = 0\<rparr> = mktime (localtime x)"
    by (simp add: mktime_def)
  then show ?thesis
    by (simp add: set_rtc_from_def rtc_datetime_def mktime_localtime)
qed

lemma rtc_set_rtc_from: "rtc (snd (set_rtc_from (localtime x) s)) = x"
  by (simp add: set_rtc_from_localtime)

lemma fst_set_rtc_from: "fst (set_rtc_from (localtime x) s) = Inr ()"
  by (simp add: set_rtc_from_localtime)

lemma synchronize_rtc_noop:
  "tm_year (localtime (rtc s)) \<noteq> 2000 \<Longrightarrow> synchronize_rtc cfg env s = (Inr (), s)"
  by (simp add: synchronize_rtc_def)

lemma synchronize_rtc_ntp_fails:
  "tm_year (localtime (rtc s)) = 2000 \<Longrightarrow> ntp_time env = Inl e \<Longrightarrow>
   synchronize_rtc cfg env s =
     (Inl e, s\<lparr>trace := trace s @ [PinRead (DEBUG_PIN cfg), NtpSettime],
               debug_reads := Suc (debug_reads s)\<rparr>)"
  by (simp add: synchronize_rtc_def bnd_def ntp_settime_def debug_print_def debug_on_def)

lemma synchronize_rtc_sync:
  assumes "tm_year (localtime (rtc s)) = 2000" and "ntp_time env = Inr t"
  shows "fst (synchronize_rtc cfg env s) = Inr () \<and>
         rtc (snd (synchronize_rtc cfg env s)) =
           (let x = nat (int t + TIMEZONE cfg * 3600); year = tm_year (localtime x)
            in if DAYLIGHT_SAVING_TIME cfg \<and> HHMarch year \<le> x \<and> x < HHOctober year
               then x + 3600 else x)"
  using assms
  by (simp add: synchronize_rtc_def bnd_def ntp_settime_def dst_correction_def
      set_rtc_from_localtime debug_print_def debug_on_def Let_def)

lemma tm_year_lt_2100:
  assumes "x < 3155760000"
  shows "tm_year (localtime x) < 2100"
proof (rule ccontr)
  assume "\<not> tm_year (localtime x) < 2100"
  then have big: "2100 \<le> tm_year (localtime x)" by simp
  obtain y yd where sy: "split_year 2000 (x div 86400) = (y, yd)" by (cases "split_year 2000 (x div 86400)")
  obtain m md where sm: "split_month y 1 yd = (m, md)" by (cases "split_month y 1 yd")
  have yr: "tm_year (localtime x) = y" by (simp add: localtime_fields [OF sy sm])
  with big have y: "2100 \<le> y" by simp
  from split_year_sum [OF sy] have sum: "days_before_year y + yd = x div 86400"
    by (simp add: days_before_year_def)
  from y have "[2000..<y] = [2000..<2100] @ [2100..<y]"
    using upt_add_eq_append [of 2000 2100 "y - 2100"] by simp
  then have "days_before_year 2100 \<le> days_before_year y"
    by (simp add: days_before_year_def)
  moreover have "days_before_year 2100 = 36525"
    using days_before_year_century [of 2100] by simp
  ultimately have "36525 \<le> x div 86400" using sum by simp
  then have "36525 * 86400 \<le> x" by (simp add: less_eq_div_iff_mult_less_eq)
  with assms show False by simp
qed

lemma HH_seconds:
  "HHMarch y = (days_before_year y + days_before_month y 3 + (dst_day y 4 - 1)) * 86400 + 7200"
  "HHOctober y = (days_before_year y + days_before_month y 10 + (dst_day y 1 - 1)) * 86400 + 10800"
  by (simp_all add: HHMarch_def HHOctober_def mktime_def)

lemma tm_year_2021: "tm_year (localtime 677003600) = 2021"
  by (simp add: localtime_def split_year.simps split_month.simps days_in_year_def
      is_leap_year_def days_in_month_def)

lemma HH_2021: "HHMarch 2021 = 670212000" "HHOctober 2021 = 688964400"
proof -
  have "days_before_year 2021 = 7671" using days_before_year_century [of 2021] by simp
  moreover have "\<not> is_leap_year 2021" by (simp add: is_leap_year_def)
  ultimately show "HHMarch 2021 = 670212000" "HHOctober 2021 = 688964400"
    by (simp_all add: HH_seconds dst_day_def days_before_march days_before_october)
qed




text \<open>
  C5: the guard on the sentinel year makes the synchronizer idempotent. In every state
  whose clock does not show the year 2000 a call returns normally and leaves the whole
  state as it was: no request to the time server, no write to the clock, no other
  effect. In particular a second call, in the state a first call has left with a year
  other than 2000, changes nothing.
\<close>

theorem synchronize_rtc_idempotent:
  "(tm_year (localtime (rtc s)) \<noteq> 2000 \<longrightarrow> synchronize_rtc cfg env s = (Inr (), s)) \<and>
   (synchronize_rtc cfg env s = (Inr (), s1) \<and> tm_year (localtime (rtc s1)) \<noteq> 2000 \<longrightarrow>
      synchronize_rtc cfg env s1 = (Inr (), s1))"
  by (simp add: synchronize_rtc_noop)

theorem synchronize_rtc_idempotent_witness:
  "tm_year (localtime (rtc (init_st\<lparr>rtc := 677007200\<rparr>))) \<noteq> 2000 \<and>
   synchronize_rtc default_config demo_env (init_st\<lparr>rtc := 677007200\<rparr>) =
     (Inr (), init_st\<lparr>rtc := 677007200\<rparr>) \<and>
   synchronize_rtc default_config demo_env (snd (synchronize_rtc default_config demo_env init_st)) =
     (Inr (), snd (synchronize_rtc default_config demo_env init_st))"
proof -
  let ?s = "init_st\<lparr>rtc := 677007200\<rparr>"
  let ?s1 = "snd (synchronize_rtc default_config demo_env init_st)"
  have a: "tm_year (localtime (rtc ?s)) \<noteq> 2000"
    by (simp add: tm_year_2000_iff)
  have first: "tm_year (localtime (rtc init_st)) = 2000"
    by (simp add: tm_year_2000_iff init_st_def)
  have ntp: "ntp_time demo_env = Inr 677000000" by (simp add: demo_env_def)
  from synchronize_rtc_sync [OF first ntp, of default_config]
  have ok: "fst (synchronize_rtc default_config demo_env init_st) = Inr ()"
    and "31622400 \<le> rtc ?s1"
    by (simp_all add: default_config_def Let_def)
  then have b: "tm_year (localtime (rtc ?s1)) \<noteq> 2000"
    by (simp add: tm_year_2000_iff)
  from ok have c: "synchronize_rtc default_config demo_env init_st = (Inr (), ?s1)"
    by (metis prod.collapse old.unit.exhaust)
  show ?thesis
    using synchronize_rtc_idempotent [of ?s default_config demo_env]
      synchronize_rtc_idempotent [of init_st default_config demo_env ?s1] a b c
    by simp
qed

text \<open>
  In the years 2000 to 2099 the source does what its docstring says. When daylight
  saving is enabled and the local standard time \<open>x\<close> (the server's UTC time plus the
  time zone offset) lies in one of these years, the day the source computes with
  \<open>31 - ((5 * year / 4 + K) mod 7)\<close> is the last Sunday of March for \<open>K = 4\<close> and
  the last Sunday of October for \<open>K = 1\<close>; the window starts at 02:00 of the first
  and ends at 03:00 of the second, and the clock is committed as \<open>x\<close> plus one hour
  if and only if \<open>x\<close> lies in the half-open window, and as \<open>x\<close> otherwise.
\<close>

lemma synchronize_rtc_dst:
  assumes "tm_year (localtime (rtc s)) = 2000"
    and "ntp_time env = Inr t"
    and "DAYLIGHT_SAVING_TIME cfg"
    and "0 \<le> int t + TIMEZONE cfg * 3600"
    and "tm_year (localtime (nat (int t + TIMEZONE cfg * 3600))) \<le> 2099"
  shows "let x = nat (int t + TIMEZONE cfg * 3600); year = tm_year (localtime x)
         in last_sunday year 3 (dst_day year 4) \<and>
            last_sunday year 10 (dst_day year 1) \<and>
            HHMarch year =
              (days_before_year year + days_before_month year 3 + (dst_day year 4 - 1)) * 86400
              + 2 * 3600 \<and>
            HHOctober year =
              (days_before_year year + days_before_month year 10 + (dst_day year 1 - 1)) * 86400
              + 3 * 3600 \<and>
            fst (synchronize_rtc cfg env s) = Inr () \<and>
            rtc (snd (synchronize_rtc cfg env s)) =
              (if HHMarch year \<le> x \<and> x < HHOctober year then x + 3600 else x)"
proof -
  define x where "x = nat (int t + TIMEZONE cfg * 3600)"
  define year where "year = tm_year (localtime x)"
  have lo: "2000 \<le> year" unfolding year_def by (rule tm_year_localtime_ge)
  have hi: "year < 2100" using assms(5) unfolding year_def x_def by simp
  have sundays: "last_sunday year 3 (dst_day year 4)" "last_sunday year 10 (dst_day year 1)"
    using lo hi by (rule last_sunday_march, rule last_sunday_october)
  from synchronize_rtc_sync [OF assms(1,2), of cfg] assms(3)
  have "fst (synchronize_rtc cfg env s) = Inr ()"
    and "rtc (snd (synchronize_rtc cfg env s)) =
           (if HHMarch year \<le> x \<and> x < HHOctober year then x + 3600 else x)"
    by (simp_all add: Let_def x_def year_def)
  with sundays show ?thesis
    unfolding Let_def x_def [symmetric] year_def [symmetric] by (simp add: HH_seconds)
qed

lemma synchronize_rtc_dst_2021:
  "last_sunday 2021 3 28 \<and> last_sunday 2021 10 31 \<and>
   HHMarch 2021 = 670212000 \<and> HHOctober 2021 = 688964400 \<and>
   fst (synchronize_rtc default_config demo_env init_st) = Inr () \<and>
   rtc (snd (synchronize_rtc default_config demo_env init_st)) = 677007200"
proof -
  have a: "tm_year (localtime (rtc init_st)) = 2000"
    by (simp add: tm_year_2000_iff init_st_def)
  have b: "ntp_time demo_env = Inr 677000000" by (simp add: demo_env_def)
  have c: "DAYLIGHT_SAVING_TIME default_config" by (simp add: default_config_def)
  have x: "nat (int 677000000 + TIMEZONE default_config * 3600) = 677003600"
    by (simp add: default_config_def)
  have d: "0 \<le> int 677000000 + TIMEZONE default_config * 3600"
    by (simp add: default_config_def)
  have e: "tm_year (localtime (nat (int 677000000 + TIMEZONE default_config * 3600))) \<le> 2099"
    unfolding x tm_year_2021 by simp
  have days: "dst_day 2021 4 = 28" "dst_day 2021 (Suc 0) = 31" by (simp_all add: dst_day_def)
  have tz: "TIMEZONE default_config = 1" by (simp add: default_config_def)
  show ?thesis
    using synchronize_rtc_dst [OF a b c d e]
    by (simp add: Let_def tz tm_year_2021 HH_2021 days)
qed


subsection \<open>The network join, claim C8\<close>

text \<open>
  C8, as amended: the network join waits one second at most \<open>MAX_TRIES\<close> times, and it
  asks the connection status before every wait. With the check before the loop, the
  test that ends the loop and the check after it, the status is asked up to
  \<open>MAX_TRIES + 3\<close> times, and exactly that often when the connection never comes up.
  The join raises the fatal error exactly when the last of these checks finds no
  connection; the orchestrator then goes to its handler and to the sleep decision in
  the state the join has left, so the join is not tried again in the cycle.
\<close>

theorem connect_wifi_bounded:
  assumes "wlan_connect env = Inr ()"
  shows "\<exists>n. n \<le> nat (MAX_TRIES cfg) \<and>
     trace (snd (connect_wifi cfg env s)) =
       trace s @
       (if isconnected env (polls s)
        then [WlanActive AP_IF False, WlanIsconnected, WlanIsconnected]
        else [WlanActive AP_IF False, WlanIsconnected, WlanActive STA_IF True,
              WlanConnect (SSID cfg) (PASS cfg)]
             @ concat (replicate n [WlanIsconnected, Sleep 1])
             @ [WlanIsconnected, WlanIsconnected]) \<and>
     polls (snd (connect_wifi cfg env s)) \<le> polls s + n + 3 \<and>
     fst (connect_wifi cfg env s) =
       (if isconnected env (polls (snd (connect_wifi cfg env s)) - 1) then Inr ()
        else Inl (RuntimeError ''WiFi connection failed'')) \<and>
     ((\<forall>k. \<not> isconnected env k) \<longrightarrow>
        n = nat (MAX_TRIES cfg) \<and>
        polls (snd (connect_wifi cfg env s)) = polls s + nat (MAX_TRIES cfg) + 3) \<and>
     (\<forall>e s1. connect_wifi cfg env s = (Inl e, s1) \<longrightarrow>
        run cfg env s = sleep_decision cfg env (handler cfg e s1))"
proof -
  define n where "n = waits cfg env 0 (Suc (polls s))"
  have le: "n \<le> nat (MAX_TRIES cfg)"
    using waits_le [of cfg env 0 "Suc (polls s)"] by (simp add: n_def)
  have never: "(\<forall>k. \<not> isconnected env k) \<longrightarrow> n = nat (MAX_TRIES cfg)"
    using waits_never [of env cfg 0 "Suc (polls s)"] by (simp add: n_def)
  have handled: "\<forall>e s1. connect_wifi cfg env s = (Inl e, s1) \<longrightarrow>
      run cfg env s = sleep_decision cfg env (handler cfg e s1)"
    by (simp add: run_steps_fail steps_connect_wifi_fails)
  show ?thesis
    apply (rule exI [of _ n])
    using le never handled
    by (simp add: connect_wifi_eq [OF assms] Let_def n_def [symmetric])
qed

theorem connect_wifi_bounded_witness:
  "fst (connect_wifi default_config no_wifi_env init_st) =
     Inl (RuntimeError ''WiFi connection failed'') \<and>
   polls (snd (connect_wifi default_config no_wifi_env init_st)) = 23"
proof -
  have a: "wlan_connect no_wifi_env = Inr ()" by (simp add: no_wifi_env_def demo_env_def)
  have b: "\<forall>k. \<not> isconnected no_wifi_env k" by (simp add: no_wifi_env_def)
  have c: "nat (MAX_TRIES default_config) = 20" "polls init_st = 0"
    by (simp_all add: default_config_def init_st_def)
  from connect_wifi_bounded [OF a, of default_config init_st] b c show ?thesis
    by auto
qed

text \<open>
  The bound of the claim as it was stated, at most \<open>MAX_TRIES\<close> checks of the status,
  does not hold: with the configured 20 tries and no network the status is asked 23
  times.
\<close>

theorem connect_wifi_polls_counterexample:
  "\<not> polls (snd (connect_wifi default_config no_wifi_env init_st))
       \<le> nat (MAX_TRIES default_config)"
proof -
  have a: "wlan_connect no_wifi_env = Inr ()" by (simp add: no_wifi_env_def demo_env_def)
  have b: "\<forall>k. \<not> isconnected no_wifi_env k" by (simp add: no_wifi_env_def)
  have c: "MAX_TRIES default_config = 20" "polls init_st = 0"
    by (simp_all add: default_config_def init_st_def)
  show ?thesis
    using b c by (simp add: connect_wifi_eq [OF a] waits_never [OF b] Let_def)
qed

subsection \<open>The orchestrator, claims C1 and C2\<close>

text \<open>
  C1: whichever of the six steps (network join, time synchronisation, forecast fetch,
  sensor read, display render, telemetry upload) raises an error \<open>e\<close>, leaving the state
  \<open>sf\<close>, the later steps are not run, the error is printed once, the fault indicator is
  switched on for half a second and off for half a second exactly three times, and then
  the sleep decision is taken: the debug input is read and, unless it is asserted, the
  device goes to deep sleep. No error leaves \<open>run\<close>.
\<close>

theorem run_error_boundary:
  assumes
    "connect_wifi cfg env s = (Inl e, sf) \<or>
     (\<exists>s1. connect_wifi cfg env s = (Inr (), s1) \<and>
       (synchronize_rtc cfg env s1 = (Inl e, sf) \<or>
       (\<exists>s2. synchronize_rtc cfg env s1 = (Inr (), s2) \<and>
         (get_weather_data cfg env s2 = (Inl e, sf) \<or>
         (\<exists>ow_data s3. get_weather_data cfg env s2 = (Inr ow_data, s3) \<and>
           (get_sensor_readings cfg env s3 = (Inl e, sf) \<or>
           (\<exists>sensor_data s4. get_sensor_readings cfg env s3 = (Inr sensor_data, s4) \<and>
             (update_oled_display cfg env ow_data sensor_data s4 = (Inl e, sf) \<or>
             (\<exists>s5. update_oled_display cfg env ow_data sensor_data s4 = (Inr (), s5) \<and>
               log_sensor_readings cfg env sensor_data s5 = (Inl e, sf))))))))))"
  shows
    "trace (try_steps cfg env s) =
       trace sf @
       [PrintException e,
        LedValue (LED_PIN cfg) (LED_ON cfg), Sleep (1/2),
        LedValue (LED_PIN cfg) (LED_OFF cfg), Sleep (1/2),
        LedValue (LED_PIN cfg) (LED_ON cfg), Sleep (1/2),
        LedValue (LED_PIN cfg) (LED_OFF cfg), Sleep (1/2),
        LedValue (LED_PIN cfg) (LED_ON cfg), Sleep (1/2),
        LedValue (LED_PIN cfg) (LED_OFF cfg), Sleep (1/2)] \<and>
     run cfg env s = sleep_decision cfg env (try_steps cfg env s) \<and>
     trace (run cfg env s) =
       trace (try_steps cfg env s) @ PinRead (DEBUG_PIN cfg) #
       (if debug_pin env (debug_reads sf) = 0 then []
        else [Sleep 2, Deepsleep (INTERVAL cfg * 1000)])"
proof -
  from assms have fails: "steps cfg env s = (Inl e, sf)"
    by (auto simp: steps_connect_wifi_fails steps_synchronize_rtc_fails
        steps_get_weather_data_fails steps_get_sensor_readings_fails
        steps_update_oled_display_fails steps_log_sensor_readings)
  then have t: "try_steps cfg env s = handler cfg e sf"
    by (simp add: try_steps_def)
  show ?thesis
    by (simp add: t run_steps_fail [OF fails] handler_eq sleep_decision_eq flash_once_def)
qed

theorem run_error_boundary_witness:
  "trace (run default_config no_ntp_env init_st) =
     [WlanActive AP_IF False, WlanIsconnected, WlanIsconnected, PinRead 5, NtpSettime,
      PrintException (OSError 110),
      LedValue 2 0, Sleep (1/2), LedValue 2 1, Sleep (1/2),
      LedValue 2 0, Sleep (1/2), LedValue 2 1, Sleep (1/2),
      LedValue 2 0, Sleep (1/2), LedValue 2 1, Sleep (1/2),
      PinRead 5, Sleep 2, Deepsleep 900000]"
proof -
  let ?s1 = "init_st\<lparr>trace := [WlanActive AP_IF False, WlanIsconnected, WlanIsconnected],
                      polls := 2\<rparr>"
  let ?sf = "?s1\<lparr>trace := trace ?s1 @ [PinRead 5, NtpSettime], debug_reads := 1\<rparr>"
  have wlan: "wlan_connect no_ntp_env = Inr ()" by (simp add: no_ntp_env_def demo_env_def)
  have up: "\<And>k. isconnected no_ntp_env k" by (simp add: no_ntp_env_def demo_env_def)
  have join: "connect_wifi default_config no_ntp_env init_st = (Inr (), ?s1)"
    by (simp add: connect_wifi_eq [OF wlan] up init_st_def)
  have year: "tm_year (localtime (rtc ?s1)) = 2000"
    by (simp add: tm_year_2000_iff init_st_def)
  have ntp: "ntp_time no_ntp_env = Inl (OSError 110)" by (simp add: no_ntp_env_def)
  have sync: "synchronize_rtc default_config no_ntp_env ?s1 = (Inl (OSError 110), ?sf)"
    by (subst synchronize_rtc_ntp_fails [OF year ntp]) (simp add: default_config_simps init_st_def)
  have pin: "debug_pin no_ntp_env (debug_reads ?sf) \<noteq> 0"
    by (simp add: no_ntp_env_def demo_env_def)
  from join sync have
    "connect_wifi default_config no_ntp_env init_st = (Inl (OSError 110), ?sf) \<or>
     (\<exists>s1. connect_wifi default_config no_ntp_env init_st = (Inr (), s1) \<and>
       (synchronize_rtc default_config no_ntp_env s1 = (Inl (OSError 110), ?sf) \<or>
       (\<exists>s2. synchronize_rtc default_config no_ntp_env s1 = (Inr (), s2) \<and>
         (get_weather_data default_config no_ntp_env s2 = (Inl (OSError 110), ?sf) \<or>
         (\<exists>ow_data s3. get_weather_data default_config no_ntp_env s2 = (Inr ow_data, s3) \<and>
           (get_sensor_readings default_config no_ntp_env s3 = (Inl (OSError 110), ?sf) \<or>
           (\<exists>sensor_data s4. get_sensor_readings default_config no_ntp_env s3 = (Inr sensor_data, s4) \<and>
             (update_oled_display default_config no_ntp_env ow_data sensor_data s4 = (Inl (OSError 110), ?sf) \<or>
             (\<exists>s5. update_oled_display default_config no_ntp_env ow_data sensor_data s4 = (Inr (), s5) \<and>
               log_sensor_readings default_config no_ntp_env sensor_data s5 = (Inl (OSError 110), ?sf))))))))))"
    by blast
  note r = run_error_boundary [OF this]
  from r [THEN conjunct1] r [THEN conjunct2, THEN conjunct2] pin show ?thesis
    by (simp add: default_config_simps init_st_def)
qed

text \<open>
  C2: at the sleep decision the debug input is read once. If it reads low the cycle
  ends there, without deep sleep; otherwise the device waits two seconds and enters
  deep sleep for \<open>INTERVAL * 1000\<close> milliseconds, which is 900000 for the configured
  interval of 900 seconds.
\<close>

theorem sleep_decision_spec:
  "(debug_pin env (debug_reads (try_steps cfg env s)) = 0 \<longrightarrow>
      trace (run cfg env s) = trace (try_steps cfg env s) @ [PinRead (DEBUG_PIN cfg)]) \<and>
   (debug_pin env (debug_reads (try_steps cfg env s)) \<noteq> 0 \<longrightarrow>
      trace (run cfg env s) =
        trace (try_steps cfg env s) @
        [PinRead (DEBUG_PIN cfg), Sleep 2, Deepsleep (INTERVAL cfg * 1000)])"
  by (simp add: run_def sleep_decision_eq)

theorem sleep_decision_spec_witness:
  "trace (run default_config debug_env init_st) =
     trace (try_steps default_config debug_env init_st) @ [PinRead 5] \<and>
   trace (run default_config demo_env init_st) =
     trace (try_steps default_config demo_env init_st) @ [PinRead 5, Sleep 2, Deepsleep 900000]"
proof -
  have a: "debug_pin debug_env (debug_reads (try_steps default_config debug_env init_st)) = 0"
    by (simp add: debug_env_def)
  have b: "debug_pin demo_env (debug_reads (try_steps default_config demo_env init_st)) \<noteq> 0"
    by (simp add: demo_env_def)
  have c: "DEBUG_PIN default_config = 5" "INTERVAL default_config * 1000 = 900000"
    by (simp_all add: default_config_def)
  from sleep_decision_spec [of debug_env default_config init_st]
    sleep_decision_spec [of demo_env default_config init_st] a b c
  show ?thesis by simp
qed

subsection \<open>The sensor read, claim C7\<close>



subsection \<open>The forecast fetch, claim C6\<close>

text \<open>
  C6, as amended: for every pair of responses with a status below 400 whose bodies hold
  the fields the fetch reads (in the first the temperature, humidity, pressure, icon,
  description and the coordinates; in the second the temperature, humidity, pressure,
  icon and description of the entries 1, 2, 3 of the daily series), whatever else the
  bodies hold, the fetch returns exactly four records: the first from the first
  response, the next three from the entries 1, 2, 3 of the daily series, in this order,
  each with the temperature \<open>temperature_2_unit (raw - 273.15)\<close>. A status of 400 or
  more from either endpoint raises a RuntimeError instead. Temperatures are real
  numbers here.
\<close>

theorem get_weather_data_spec:
  "(http_get env (requests s) (url1 cfg) = Inr \<lparr>status_code = c1, json_body = Inr today\<rparr> \<and>
    c1 < 400 \<and>
    holds_today today (kelvin, hum, pres, icon, report) lon lat \<and>
    http_get env (Suc (requests s)) (url2 cfg lat lon) =
      Inr \<lparr>status_code = c2, json_body = Inr forecast\<rparr> \<and>
    c2 < 400 \<and>
    holds_day forecast 1 d1 \<and> holds_day forecast 2 d2 \<and> holds_day forecast 3 d3 \<longrightarrow>
      fst (get_weather_data cfg env s) =
        Inr [\<lparr>ow_temp = temperature_2_unit cfg (kelvin - 273.15), ow_hum = hum,
               ow_pres = pres, ow_icon = icon, ow_report = report\<rparr>,
             day_record cfg d1, day_record cfg d2, day_record cfg d3]) \<and>
   (\<forall>k h p i r. day_record cfg (k, h, p, i, r) =
      \<lparr>ow_temp = temperature_2_unit cfg (k - 273.15), ow_hum = h, ow_pres = p,
       ow_icon = i, ow_report = r\<rparr>) \<and>
   (\<forall>resp. http_get env (requests s) (url1 cfg) = Inr resp \<and> \<not> status_code resp < 400 \<longrightarrow>
      fst (get_weather_data cfg env s) = Inl (RuntimeError ''Webhook OpenWeather URL1 failed'')) \<and>
   (\<forall>resp. http_get env (requests s) (url1 cfg) =
              Inr \<lparr>status_code = c1, json_body = Inr today\<rparr> \<and>
           c1 < 400 \<and>
           holds_today today (kelvin, hum, pres, icon, report) lon lat \<and>
           http_get env (Suc (requests s)) (url2 cfg lat lon) = Inr resp \<and>
           \<not> status_code resp < 400 \<longrightarrow>
      fst (get_weather_data cfg env s) = Inl (RuntimeError ''Webhook OpenWeather URL1 failed''))"
proof (intro conjI allI impI)
  assume "http_get env (requests s) (url1 cfg) = Inr \<lparr>status_code = c1, json_body = Inr today\<rparr> \<and>
    c1 < 400 \<and>
    holds_today today (kelvin, hum, pres, icon, report) lon lat \<and>
    http_get env (Suc (requests s)) (url2 cfg lat lon) =
      Inr \<lparr>status_code = c2, json_body = Inr forecast\<rparr> \<and>
    c2 < 400 \<and>
    holds_day forecast 1 d1 \<and> holds_day forecast 2 d2 \<and> holds_day forecast 3 d3"
  then have "get_weather_data cfg env s =
    (Inr [day_record cfg (kelvin, hum, pres, icon, report), day_record cfg d1,
          day_record cfg d2, day_record cfg d3],
     s\<lparr>trace := trace s @ [HttpGet (url1 cfg), PinRead (DEBUG_PIN cfg),
          HttpGet (url2 cfg lat lon), PinRead (DEBUG_PIN cfg), PinRead (DEBUG_PIN cfg)],
       requests := Suc (Suc (requests s)),
       debug_reads := Suc (Suc (Suc (debug_reads s)))\<rparr>)"
    by (intro get_weather_data_holds) blast+
  then show "fst (get_weather_data cfg env s) =
        Inr [\<lparr>ow_temp = temperature_2_unit cfg (kelvin - 273.15), ow_hum = hum,
               ow_pres = pres, ow_icon = icon, ow_report = report\<rparr>,
             day_record cfg d1, day_record cfg d2, day_record cfg d3]"
    by simp
next
  fix k h p i r
  show "day_record cfg (k, h, p, i, r) =
      \<lparr>ow_temp = temperature_2_unit cfg (k - 273.15), ow_hum = h, ow_pres = p,
       ow_icon = i, ow_report = r\<rparr>"
    by simp
next
  fix resp
  assume "http_get env (requests s) (url1 cfg) = Inr resp \<and> \<not> status_code resp < 400"
  then show "fst (get_weather_data cfg env s) =
      Inl (RuntimeError ''Webhook OpenWeather URL1 failed'')"
    by (simp add: get_weather_data_status1)
next
  fix resp
  assume a: "http_get env (requests s) (url1 cfg) =
              Inr \<lparr>status_code = c1, json_body = Inr today\<rparr> \<and>
           c1 < 400 \<and>
           holds_today today (kelvin, hum, pres, icon, report) lon lat \<and>
           http_get env (Suc (requests s)) (url2 cfg lat lon) = Inr resp \<and>
           \<not> status_code resp < 400"
  have "get_weather_data cfg env s =
    (Inl (RuntimeError ''Webhook OpenWeather URL1 failed''),
     s\<lparr>trace := trace s @ [HttpGet (url1 cfg), PinRead (DEBUG_PIN cfg),
          HttpGet (url2 cfg lat lon)],
       requests := Suc (Suc (requests s)),
       debug_reads := Suc (debug_reads s)\<rparr>)"
    by (rule get_weather_data_holds_status2 [where today = today and ?c1.0 = c1 and resp = resp])
       (use a in blast)+
  then show "fst (get_weather_data cfg env s) =
      Inl (RuntimeError ''Webhook OpenWeather URL1 failed'')"
    by simp
qed

theorem get_weather_data_spec_witness:
  "fst (get_weather_data default_config rich_env init_st) =
     Inr [\<lparr>ow_temp = 18.85, ow_hum = JNum 58, ow_pres = JNum 1013, ow_icon = JStr ''03d'',
            ow_report = JStr ''scattered clouds''\<rparr>,
          \<lparr>ow_temp = 17.85, ow_hum = JNum 55, ow_pres = JNum 1015, ow_icon = JStr ''01d'',
            ow_report = JStr ''clear sky''\<rparr>,
          \<lparr>ow_temp = 15.85, ow_hum = JNum 70, ow_pres = JNum 1009, ow_icon = JStr ''10d'',
            ow_report = JStr ''light rain''\<rparr>,
          \<lparr>ow_temp = 19.85, ow_hum = JNum 50, ow_pres = JNum 1018, ow_icon = JStr ''02d'',
            ow_report = JStr ''few clouds''\<rparr>] \<and>
   fst (get_weather_data default_config http_500_env init_st) =
     Inl (RuntimeError ''Webhook OpenWeather URL1 failed'')"
proof -
  have g1: "http_get rich_env (requests init_st) (url1 default_config) =
      Inr \<lparr>status_code = 200, json_body = Inr rich_today\<rparr>"
    by (simp only: rich_env_get)
  have g2: "http_get rich_env (Suc (requests init_st))
        (url2 default_config (JNum 51.2) (JNum 4.4)) =
      Inr \<lparr>status_code = 200, json_body = Inr (forecast_json demo_days)\<rparr>"
    by (simp only: rich_env_get)
  have d: "holds_day (forecast_json demo_days) 1 (demo_days ! 1)"
    "holds_day (forecast_json demo_days) 2 (demo_days ! 2)"
    "holds_day (forecast_json demo_days) 3 (demo_days ! 3)"
    by (rule holds_day_json, simp add: demo_days_nth)+
  have a: "fst (get_weather_data default_config rich_env init_st) =
     Inr [\<lparr>ow_temp = 18.85, ow_hum = JNum 58, ow_pres = JNum 1013, ow_icon = JStr ''03d'',
            ow_report = JStr ''scattered clouds''\<rparr>,
          \<lparr>ow_temp = 17.85, ow_hum = JNum 55, ow_pres = JNum 1015, ow_icon = JStr ''01d'',
            ow_report = JStr ''clear sky''\<rparr>,
          \<lparr>ow_temp = 15.85, ow_hum = JNum 70, ow_pres = JNum 1009, ow_icon = JStr ''10d'',
            ow_report = JStr ''light rain''\<rparr>,
          \<lparr>ow_temp = 19.85, ow_hum = JNum 50, ow_pres = JNum 1018, ow_icon = JStr ''02d'',
            ow_report = JStr ''few clouds''\<rparr>]"
    using get_weather_data_spec [of rich_env init_st default_config 200 rich_today 292 "JNum 58"
        "JNum 1013" "JStr ''03d''" "JStr ''scattered clouds''" "JNum 4.4" "JNum 51.2" 200
        "forecast_json demo_days" "demo_days ! 1" "demo_days ! 2" "demo_days ! 3",
        THEN conjunct1, THEN mp, OF conjI [OF g1 conjI [OF _ conjI [OF holds_rich_today
          conjI [OF g2 conjI [OF _ conjI [OF d(1) conjI [OF d(2) d(3)]]]]]]]]
    by (simp add: demo_days_nth temperature_2_unit_def default_config_simps)
  have b: "fst (get_weather_data default_config http_500_env init_st) =
     Inl (RuntimeError ''Webhook OpenWeather URL1 failed'')"
    using get_weather_data_spec [of http_500_env init_st default_config,
        THEN conjunct2, THEN conjunct2, THEN conjunct1, THEN spec, THEN mp]
      http_500_env_get [of "requests init_st" "url1 default_config"]
    by simp
  from a b show ?thesis by blast
qed

text \<open>
  The condition on the bodies is needed. Two responses with status 200, the second with
  an empty daily series, do not give four records: the look-up of entry 1 raises an
  IndexError.
\<close>

theorem get_weather_data_short_counterexample:
  "http_get short_daily_env (requests init_st) (url1 default_config) =
     Inr \<lparr>status_code = 200, json_body = Inr demo_today\<rparr> \<and>
   http_get short_daily_env (Suc (requests init_st))
       (url2 default_config (JNum 51.2) (JNum 4.4)) =
     Inr \<lparr>status_code = 200, json_body = Inr (forecast_json [])\<rparr> \<and>
   fst (get_weather_data default_config short_daily_env init_st) = Inl IndexError"
proof -
  have g1: "http_get short_daily_env (requests init_st) (url1 default_config) =
     Inr \<lparr>status_code = 200, json_body = Inr demo_today\<rparr>"
    by (simp only: short_daily_env_get)
  have g2: "http_get short_daily_env (Suc (requests init_st))
       (url2 default_config (JNum 51.2) (JNum 4.4)) =
     Inr \<lparr>status_code = 200, json_body = Inr (forecast_json [])\<rparr>"
    by (simp only: short_daily_env_get)
  have h: "holds_today demo_today
      (292, JNum 58, JNum 1013, JStr ''03d'', JStr ''scattered clouds'') (JNum 4.4) (JNum 51.2)"
    unfolding demo_today_def by (rule holds_today_json)
  have e: "extract_daily default_config (forecast_json []) 1 = Inl IndexError"
    by (rule extract_daily_short) simp
  have "fst (get_weather_data default_config short_daily_env init_st) = Inl IndexError"
    by (rule get_weather_data_no_entry [OF g1 _ h g2 _ e]) simp_all
  with g1 g2 show ?thesis by blast
qed

subsection \<open>The telemetry upload, claim C9\<close>

text \<open>
  C9: the upload makes exactly one GET request, to the URL built from the ThingSpeak
  template with the write key and the temperature, humidity, pressure and luminance of
  the reading. When the service answers, the upload returns normally if the status is
  below 400, and it raises RuntimeError 'Webhook ThingSpeak failed' exactly when the
  status is 400 or more.
\<close>

theorem log_sensor_readings_spec:
  "trace (snd (log_sensor_readings cfg env (r # rs) s)) =
     trace s @
     [HttpGet (Url (THINGSPEAK_URL cfg)
        [(''api'', JStr (THINGSPEAK_WRITE_API cfg)),
         (''temp'', JNum (am2320_temp r)), (''hum'', JNum (am2320_hum r)),
         (''pres'', JNum (bmp180_pres r)), (''lum'', JNum (bh1750_lum r))])] \<and>
   (\<forall>resp. http_get env (requests s) (thingspeak_url cfg r) = Inr resp \<longrightarrow>
      (status_code resp < 400 \<longrightarrow> fst (log_sensor_readings cfg env (r # rs) s) = Inr ()) \<and>
      (fst (log_sensor_readings cfg env (r # rs) s) =
         Inl (RuntimeError ''Webhook ThingSpeak failed'') \<longleftrightarrow> \<not> status_code resp < 400))"
  by (simp add: log_sensor_readings_eq thingspeak_url_def)

theorem log_sensor_readings_spec_witness:
  "fst (log_sensor_readings default_config demo_env [demo_reading] init_st) = Inr () \<and>
   fst (log_sensor_readings default_config http_500_env [demo_reading] init_st) =
     Inl (RuntimeError ''Webhook ThingSpeak failed'')"
proof -
  have a: "fst (log_sensor_readings default_config demo_env [demo_reading] init_st) = Inr ()"
    using log_sensor_readings_spec [of default_config demo_env demo_reading "[]" init_st,
        THEN conjunct2, THEN spec, THEN mp, OF demo_env_get(3)]
    by simp
  have b: "fst (log_sensor_readings default_config http_500_env [demo_reading] init_st) =
     Inl (RuntimeError ''Webhook ThingSpeak failed'')"
    using log_sensor_readings_spec [of default_config http_500_env demo_reading "[]" init_st,
        THEN conjunct2, THEN spec, THEN mp, OF http_500_env_get]
    by simp
  from a b show ?thesis by blast
qed

subsection \<open>The display render, claim C10\<close>

text \<open>
  C10: the display render starts with a bus scan of its own and raises RuntimeError
  'Cannot find OLED display' when the address 60 (0x3C) is not in it, before any page is
  drawn. In a cycle whose first four steps have succeeded this ends the try block: the
  handler prints the error and flashes the indicator, the sleep decision follows, and
  nothing else happens; in particular the readings are not uploaded.
\<close>

theorem update_oled_display_precondition:
  assumes "connect_wifi cfg env s = (Inr (), s1)"
    and "synchronize_rtc cfg env s1 = (Inr (), s2)"
    and "get_weather_data cfg env s2 = (Inr ow_data, s3)"
    and "get_sensor_readings cfg env s3 = (Inr sensor_data, s4)"
    and "60 \<notin> set (i2c_scan env (scans s4))"
  shows "update_oled_display cfg env ow_data sensor_data s4 =
           (Inl (RuntimeError ''Cannot find OLED display''),
            s4\<lparr>trace := trace s4 @ [I2cScan], scans := Suc (scans s4)\<rparr>) \<and>
         steps cfg env s =
           (Inl (RuntimeError ''Cannot find OLED display''),
            s4\<lparr>trace := trace s4 @ [I2cScan], scans := Suc (scans s4)\<rparr>) \<and>
         trace (run cfg env s) =
           trace s4 @
           [I2cScan, PrintException (RuntimeError ''Cannot find OLED display''),
            LedValue (LED_PIN cfg) (LED_ON cfg), Sleep (1/2),
            LedValue (LED_PIN cfg) (LED_OFF cfg), Sleep (1/2),
            LedValue (LED_PIN cfg) (LED_ON cfg), Sleep (1/2),
            LedValue (LED_PIN cfg) (LED_OFF cfg), Sleep (1/2),
            LedValue (LED_PIN cfg) (LED_ON cfg), Sleep (1/2),
            LedValue (LED_PIN cfg) (LED_OFF cfg), Sleep (1/2),
            PinRead (DEBUG_PIN cfg)] @
           (if debug_pin env (debug_reads s4) = 0 then []
            else [Sleep 2, Deepsleep (INTERVAL cfg * 1000)])"
proof -
  let ?sf = "s4\<lparr>trace := trace s4 @ [I2cScan], scans := Suc (scans s4)\<rparr>"
  have oled: "update_oled_display cfg env ow_data sensor_data s4 =
           (Inl (RuntimeError ''Cannot find OLED display''), ?sf)"
    by (rule update_oled_display_no_oled [OF assms(5)])
  have st: "steps cfg env s = (Inl (RuntimeError ''Cannot find OLED display''), ?sf)"
    by (rule steps_update_oled_display_fails [OF assms(1-4) oled])
  show ?thesis
    by (simp add: oled st run_steps_fail [OF st] handler_eq sleep_decision_eq flash_once_def)
qed

theorem update_oled_display_precondition_witness:
  "trace (run default_config no_oled_env (init_st\<lparr>rtc := 677007200\<rparr>)) =
     [WlanActive AP_IF False, WlanIsconnected, WlanIsconnected,
      HttpGet (url1 default_config), PinRead 5,
      HttpGet (url2 default_config (JNum 51.2) (JNum 4.4)), PinRead 5, PinRead 5,
      DeviceInit AM2320, I2cScan, I2cScan, Am2320Measure, PinRead 5,
      DeviceInit BMP180, I2cScan, Bmp180Read, PinRead 5,
      DeviceInit BH1750, I2cScan, Bh1750Luminance, PinRead 5,
      I2cScan, PrintException (RuntimeError ''Cannot find OLED display''),
      LedValue 2 0, Sleep (1/2), LedValue 2 1, Sleep (1/2),
      LedValue 2 0, Sleep (1/2), LedValue 2 1, Sleep (1/2),
      LedValue 2 0, Sleep (1/2), LedValue 2 1, Sleep (1/2),
      PinRead 5, Sleep 2, Deepsleep 900000]"
proof -
  let ?s0 = "init_st\<lparr>rtc := 677007200\<rparr>"
  let ?s1 = "?s0\<lparr>trace := trace ?s0 @ [WlanActive AP_IF False, WlanIsconnected, WlanIsconnected],
                  polls := polls ?s0 + 2\<rparr>"
  have join: "connect_wifi default_config no_oled_env ?s0 = (Inr (), ?s1)"
    by (simp add: connect_wifi_eq [OF no_oled_env_fields(7)] no_oled_env_fields)
  have sync: "synchronize_rtc default_config no_oled_env ?s1 = (Inr (), ?s1)"
    by (rule synchronize_rtc_noop) (simp add: tm_year_2000_iff)
  have g1: "http_get no_oled_env (requests ?s1) (url1 default_config) =
      Inr \<lparr>status_code = 200,
           json_body = Inr (today_json 292 (JNum 58) (JNum 1013) (JStr ''03d'')
             (JStr ''scattered clouds'') (JNum 4.4) (JNum 51.2))\<rparr>"
    by (simp only: no_oled_env_fields demo_env_get demo_today_def)
  have g2: "http_get no_oled_env (Suc (requests ?s1))
        (url2 default_config (JNum 51.2) (JNum 4.4)) =
      Inr \<lparr>status_code = 200, json_body = Inr (forecast_json demo_days)\<rparr>"
    by (simp only: no_oled_env_fields demo_env_get)
  have len: "4 \<le> length demo_days" by (simp add: demo_days_nth)
  obtain ow s3 where weather: "get_weather_data default_config no_oled_env ?s1 = (Inr ow, s3)"
    and t3: "trace s3 = trace ?s1 @ [HttpGet (url1 default_config), PinRead 5,
          HttpGet (url2 default_config (JNum 51.2) (JNum 4.4)), PinRead 5, PinRead 5]"
    using get_weather_data_ok [OF g1 _ g2 _ len] by (simp add: default_config_simps)
  have m: "am2320_measure no_oled_env = Inr (21.5, 40)"
    "bmp180_read no_oled_env = Inr (22, 101325, 12)"
    "bh1750_luminance no_oled_env = Inr 300"
    by (simp_all only: no_oled_env_fields)
  obtain sd s4 where sensors: "get_sensor_readings default_config no_oled_env s3 = (Inr sd, s4)"
    and t4: "trace s4 = trace s3 @ [DeviceInit AM2320, I2cScan, I2cScan, Am2320Measure, PinRead 5,
          DeviceInit BMP180, I2cScan, Bmp180Read, PinRead 5,
          DeviceInit BH1750, I2cScan, Bh1750Luminance, PinRead 5]"
    using get_sensor_readings_ok [of no_oled_env s3, OF _ _ _ _ m(1) _ m(2) _ m(3)]
    by (simp add: no_oled_env_fields default_config_simps)
  have scan: "60 \<notin> set (i2c_scan no_oled_env (scans s4))"
    by (simp add: no_oled_env_fields)
  note th = update_oled_display_precondition [OF join sync weather sensors scan]
  from th [THEN conjunct2, THEN conjunct2] show ?thesis
    by (simp add: t3 t4 no_oled_env_fields default_config_simps init_st_def)
qed

end
